theory Spec2Isabelle
  imports Complex_Main "HOL-Library.AList"
begin

section \<open>Gift analyst bot: data model\<close>

text \<open>
  The bot is one Python module, \<^verbatim>\<open>tg_gift_analyst_bot.py\<close>. Its values are Python
  dictionaries, strings and optional integers. A dictionary is modelled as an association
  list: \<open>map_of\<close> is \<^verbatim>\<open>d.get(k)\<close> and \<open>AList.update\<close> is \<^verbatim>\<open>d[k] = v\<close> (the entry is
  replaced in place, or appended when the key is new), so an empty dictionary is the empty
  list, which is what Python's truth test on a dictionary looks at.

  The user-visible texts of the source are Russian. The theory is written in ASCII, so each
  Cyrillic literal appears in Latin transliteration, the star emoji as \<open>*\<close> and the dash as
  \<open>-\<close>; the interpolated parts (a gift title, a star amount) are the source's.
\<close>

subsection \<open>Python's \<^verbatim>\<open>str\<close> on integers\<close>

definition digit_char :: "nat \<Rightarrow> char" where
  "digit_char d = ''0123456789'' ! d"

function str_nat :: "nat \<Rightarrow> string" where
  "str_nat n = (if n < 10 then [digit_char n] else str_nat (n div 10) @ [digit_char (n mod 10)])"
  by pat_completeness auto
termination
  by (relation "measure id") auto

declare str_nat.simps [simp del]

definition str_int :: "int \<Rightarrow> string" where
  "str_int i = (if i < 0 then CHR ''-'' # str_nat (nat (- i)) else str_nat (nat i))"



subsection \<open>Catalog entries, portfolio items, quotes, suggestions\<close>

text \<open>One entry of the catalog, as \<^verbatim>\<open>build_catalog\<close> builds it (keys \<^verbatim>\<open>id\<close>, \<^verbatim>\<open>title\<close>,
  \<^verbatim>\<open>star_count\<close>, \<^verbatim>\<open>total_count\<close>, \<^verbatim>\<open>remaining_count\<close>, \<^verbatim>\<open>upgrade_star_count\<close>).\<close>

record catalog_entry =
  ce_id :: string
  ce_title :: string
  star_count :: "int option"
  ce_total_count :: "int option"
  remaining_count :: "int option"
  upgrade_star_count :: "int option"

type_synonym catalog = "(string \<times> catalog_entry) list"

text \<open>One item of a portfolio, as \<^verbatim>\<open>fetch_portfolio\<close> builds it. The source keeps an untyped
  dictionary and reads it with \<^verbatim>\<open>g.get(key)\<close>, which gives \<^verbatim>\<open>None\<close> for a key the item does
  not have; the record has every key of both shapes, \<open>None\<close> where the key is missing.
  \<^verbatim>\<open>gift_title\<close> is read with \<^verbatim>\<open>r['gift_title']\<close> and is set on every item.\<close>

record gift_item =
  gift_type :: string
  gift_class :: string
  gift_id :: "string option"
  gift_title :: string
  convert_star_count :: "int option"
  can_be_upgraded :: "bool option"
  prepaid_upgrade_star_count :: "int option"
  gift_text :: "string option"
  rank :: "int option"
  can_be_transferred :: "bool option"
  transfer_star_count :: "int option"
  next_transfer_date :: "string option"

text \<open>\<^verbatim>\<open>MarketQuote\<close> (its \<^verbatim>\<open>ts\<close> field, a clock reading no rule looks at, is left out).\<close>

record market_quote =
  quote_gift_id :: string
  floor_stars :: "int option"
  last_trade_stars :: "int option"

type_synonym quotes = "(string \<times> market_quote) list"

record suggestion =
  title :: string
  details :: string

subsection \<open>Formatting\<close>

text \<open>\<^verbatim>\<open>fmt_stars\<close>: \<^verbatim>\<open>f"{val} *" if isinstance(val, int) else "-"\<close>.\<close>

definition fmt_stars :: "int option \<Rightarrow> string" where
  "fmt_stars val = (case val of Some v \<Rightarrow> str_int v @ '' *'' | None \<Rightarrow> ''-'')"

section \<open>The rules of \<^verbatim>\<open>analyze_portfolio\<close>\<close>

text \<open>Python's truth test on an optional string and an optional boolean.\<close>

definition truthy_str :: "string option \<Rightarrow> bool" where
  "truthy_str s = (case s of None \<Rightarrow> False | Some v \<Rightarrow> v \<noteq> [])"

definition truthy_bool :: "bool option \<Rightarrow> bool" where
  "truthy_bool b = (case b of None \<Rightarrow> False | Some v \<Rightarrow> v)"

text \<open>\<^verbatim>\<open>catalog.get(r.get("gift_id"))\<close>: the catalog's keys are strings, so the key \<^verbatim>\<open>None\<close>
  finds nothing.\<close>

definition catalog_get :: "catalog \<Rightarrow> string option \<Rightarrow> catalog_entry option" where
  "catalog_get cat k = (case k of None \<Rightarrow> None | Some i \<Rightarrow> map_of cat i)"

definition convert_suggestion :: "gift_item \<Rightarrow> int \<Rightarrow> suggestion" where
  "convert_suggestion r conv =
     \<lparr>title = ''Konvertirovat v Stars: '' @ gift_title r,
      details = ''Mozhno poluchit '' @ fmt_stars (Some conv) @ '' za obychnyj podarok.''\<rparr>"

definition upgrade_suggestion :: "gift_item \<Rightarrow> int \<Rightarrow> suggestion" where
  "upgrade_suggestion r up =
     \<lparr>title = ''Podumat ob apgrejde: '' @ gift_title r,
      details = ''Apgrejd do unikalnogo stoit '' @ fmt_stars (Some up) @
                ''. Ocenite rynok pered apgrejdom.''\<rparr>"

text \<open>The body of the loop over the regular items (lines 216 to 234): it appends at most
  one suggestion to the list built so far.\<close>

definition regular_step :: "catalog \<Rightarrow> int \<Rightarrow> gift_item \<Rightarrow> suggestion list \<Rightarrow> suggestion list" where
  "regular_step cat min_profit_stars r suggestions =
     (let conv = convert_star_count r in
      if (case conv of None \<Rightarrow> False | Some c \<Rightarrow> c \<ge> min_profit_stars)
      then suggestions @ [convert_suggestion r (the conv)]
      else if truthy_bool (can_be_upgraded r)
      then (let g = catalog_get cat (gift_id r);
                up = (case g of Some e \<Rightarrow> upgrade_star_count e | None \<Rightarrow> None)
            in case up of
                 Some u \<Rightarrow> suggestions @ [upgrade_suggestion r u]
               | None \<Rightarrow> suggestions)
      else suggestions)"

fun regular_loop :: "catalog \<Rightarrow> int \<Rightarrow> gift_item list \<Rightarrow> suggestion list \<Rightarrow> suggestion list" where
  "regular_loop cat m [] suggestions = suggestions"
| "regular_loop cat m (r # rs) suggestions = regular_loop cat m rs (regular_step cat m r suggestions)"

text \<open>The transfer test of a unique item (lines 238 to 244). \<open>iso_timestamp\<close> stands for
  \<^verbatim>\<open>datetime.fromisoformat(s).timestamp()\<close>, \<open>None\<close> when either call raises; \<open>now\<close> is
  the reading of \<^verbatim>\<open>time.time()\<close>. The loop has no suspension point, and the model reads the
  clock once for the whole run.\<close>

definition can_transfer_now :: "(string \<Rightarrow> real option) \<Rightarrow> real \<Rightarrow> gift_item \<Rightarrow> bool" where
  "can_transfer_now iso_timestamp now u =
     (let next_transfer_iso = next_transfer_date u in
      if truthy_str next_transfer_iso
      then (case iso_timestamp (the next_transfer_iso) of
              Some t \<Rightarrow> t \<le> now
            | None \<Rightarrow> True)
      else True)"

definition sell_details :: "quotes \<Rightarrow> gift_item \<Rightarrow> string" where
  "sell_details qs u =
     (let q = (if truthy_str (gift_id u) then map_of qs (the (gift_id u)) else None);
          floor = (case q of Some mq \<Rightarrow> floor_stars mq | None \<Rightarrow> None);
          details = ''Mozhno perevodit sejchas.''
      in if (case floor of None \<Rightarrow> False | Some f \<Rightarrow> f \<noteq> 0)
         then details @ '' Orientir po flooru: ~'' @ fmt_stars floor @ ''.''
         else details)"

definition sell_suggestion :: "quotes \<Rightarrow> gift_item \<Rightarrow> suggestion" where
  "sell_suggestion qs u =
     \<lparr>title = ''Unikalnyj gotov k prodazhe: '' @ gift_title u, details = sell_details qs u\<rparr>"

text \<open>The body of the loop over the unique items (lines 238 to 256).\<close>

definition unique_step ::
  "quotes \<Rightarrow> (string \<Rightarrow> real option) \<Rightarrow> real \<Rightarrow> gift_item \<Rightarrow> suggestion list \<Rightarrow> suggestion list" where
  "unique_step qs iso_timestamp now u suggestions =
     (if can_transfer_now iso_timestamp now u
      then suggestions @ [sell_suggestion qs u]
      else suggestions)"

fun unique_loop ::
  "quotes \<Rightarrow> (string \<Rightarrow> real option) \<Rightarrow> real \<Rightarrow> gift_item list \<Rightarrow> suggestion list \<Rightarrow> suggestion list" where
  "unique_loop qs ts now [] suggestions = suggestions"
| "unique_loop qs ts now (u # us) suggestions = unique_loop qs ts now us (unique_step qs ts now u suggestions)"

definition regulars :: "gift_item list \<Rightarrow> gift_item list" where
  "regulars gifts = filter (\<lambda>g. gift_class g = ''regular'') gifts"

definition uniques :: "gift_item list \<Rightarrow> gift_item list" where
  "uniques gifts = filter (\<lambda>g. gift_class g = ''unique'') gifts"

definition placeholder :: suggestion where
  "placeholder = \<lparr>title = ''Poka bez yavnyh dejstvij'',
                  details = ''Zhdyom izmenenij v kataloge/portfele.''\<rparr>"

text \<open>The suggestions the two loops collect (lines 208 to 256), and the list
  \<^verbatim>\<open>analyze_portfolio\<close> returns (lines 208 to 259) once its inputs are gathered: the catalog,
  the quotes, the threshold \<^verbatim>\<open>min_profit_stars\<close> and the portfolio's gifts.\<close>

definition collect ::
  "catalog \<Rightarrow> quotes \<Rightarrow> (string \<Rightarrow> real option) \<Rightarrow> real \<Rightarrow> int \<Rightarrow> gift_item list \<Rightarrow> suggestion list" where
  "collect cat qs ts now m gifts =
     unique_loop qs ts now (uniques gifts) (regular_loop cat m (regulars gifts) [])"

definition analyze ::
  "catalog \<Rightarrow> quotes \<Rightarrow> (string \<Rightarrow> real option) \<Rightarrow> real \<Rightarrow> int \<Rightarrow> gift_item list \<Rightarrow> suggestion list" where
  "analyze cat qs ts now m gifts =
     (let suggestions = collect cat qs ts now m gifts
      in if suggestions = [] then suggestions @ [placeholder] else suggestions)"


section \<open>The process: state, platform, handlers\<close>

subsection \<open>Exceptions\<close>

text \<open>The exceptions the modelled code can meet: a failed call of the platform client
  (\<^verbatim>\<open>telegram.error.TelegramError\<close> and its subclasses), the \<^verbatim>\<open>ValueError\<close> of
  \<^verbatim>\<open>int(...)\<close> and \<^verbatim>\<open>float(...)\<close>, the \<^verbatim>\<open>AttributeError\<close> of a method call on
  \<^verbatim>\<open>None\<close>, and the \<^verbatim>\<open>ValidationError\<close> of the state model. A function that can raise
  returns \<open>Inl\<close> of the exception together with the world as the exception leaves it: what
  was written before the raise stays written.\<close>

datatype error = TelegramError | ValueError | AttributeError | ValidationError

subsection \<open>The persisted state\<close>

text \<open>A Python \<^verbatim>\<open>float\<close>: \<^verbatim>\<open>float("nan")\<close> and \<^verbatim>\<open>float("inf")\<close> parse too.\<close>

datatype pyfloat = Float real | Inf | NegInf | NaN

text \<open>A user's settings, \<^verbatim>\<open>{"min_profit_stars": int, "min_profit_pct": float}\<close>. The
  dictionary is typed \<^verbatim>\<open>Dict[str, Any]\<close>: \<^verbatim>\<open>/watch\<close> stores a float under
  \<^verbatim>\<open>min_profit_pct\<close>, and a state read back from the file can hold \<^verbatim>\<open>None\<close> there.\<close>

record user_settings =
  min_profit_stars :: int
  min_profit_pct :: "pyfloat option"

text \<open>The snapshot \<^verbatim>\<open>fetch_portfolio\<close> returns; \<^verbatim>\<open>ts\<close> is missing from the one it returns
  for a user with no connection.\<close>

record portfolio =
  pf_total_count :: int
  pf_gifts :: "gift_item list"
  pf_ts :: "real option"

text \<open>\<^verbatim>\<open>class State(BaseModel)\<close>: five dictionaries keyed by \<^verbatim>\<open>str(user_id)\<close> (the catalog
  by gift id).\<close>

record State =
  connections :: "(string \<times> string) list"
  chats :: "(string \<times> int) list"
  settings :: "(string \<times> user_settings) list"
  last_catalog :: catalog
  last_portfolio :: "(string \<times> portfolio) list"

subsection \<open>The platform\<close>

text \<open>The objects the Bot API returns, with the attributes the source reads.
  \<^verbatim>\<open>og.gift\<close> is flattened into the owned gift, and a \<^verbatim>\<open>next_transfer_date\<close> is held as
  the string its \<^verbatim>\<open>isoformat()\<close> gives.\<close>

record api_gift =
  ag_id :: string
  ag_emoji :: "string option"
  ag_star_count :: "int option"
  ag_total_count :: "int option"
  ag_remaining_count :: "int option"
  ag_upgrade_star_count :: "int option"

record owned_gift =
  og_type :: string
  og_gift_id :: "string option"
  og_emoji :: "string option"
  og_convert_star_count :: "int option"
  og_can_be_upgraded :: "bool option"
  og_prepaid_upgrade_star_count :: "int option"
  og_text :: "string option"
  og_rank :: "int option"
  og_can_be_transferred :: "bool option"
  og_transfer_star_count :: "int option"
  og_next_transfer_date :: "string option"

record gifts_page =
  page_total_count :: int
  page_gifts :: "owned_gift list"
  page_next_offset :: "string option"

text \<open>Everything outside the process, as one handler run sees it: the answers of the
  platform (the nth request for a page may answer differently from the one before), the
  clock, the library functions on dates, floats and digit strings, the configured poll
  interval (\<^verbatim>\<open>DEFAULT_POLL_INTERVAL_SEC\<close>), and whether the application was built with a
  job queue (\<^verbatim>\<open>context.job_queue\<close> is \<^verbatim>\<open>None\<close> when the library is installed without its
  job-queue extra, as the module's own install line does).

  \<open>str_isdigit\<close> is \<^verbatim>\<open>str.isdigit\<close> and \<open>int_of_str\<close> is \<^verbatim>\<open>int\<close> on a string, \<open>None\<close>
  when it raises \<^verbatim>\<open>ValueError\<close>: \<^verbatim>\<open>isdigit\<close> accepts digits beyond \<open>0\<close> to \<open>9\<close> (the
  superscript two, for one), for some of which \<^verbatim>\<open>int\<close> raises. \<open>parse_float\<close> is \<^verbatim>\<open>float\<close>
  on a string, \<open>None\<close> when it raises.\<close>

record env =
  get_available_gifts :: "error + api_gift list"
  get_business_account_gifts :: "nat \<Rightarrow> string \<Rightarrow> string option \<Rightarrow> error + gifts_page"
  send_message :: "int \<Rightarrow> string \<Rightarrow> error option"
  clock :: real
  iso_timestamp :: "string \<Rightarrow> real option"
  str_isdigit :: "string \<Rightarrow> bool"
  int_of_str :: "string \<Rightarrow> int option"
  parse_float :: "string \<Rightarrow> pyfloat option"
  str_float :: "pyfloat \<Rightarrow> string"
  poll_interval :: int
  has_job_queue :: bool

datatype api_call =
  GetAvailableGifts
| GetBusinessAccountGifts string "string option"
| SendMessage int string

text \<open>A job of the job queue, as \<^verbatim>\<open>run_repeating\<close> registers it: its name, its interval
  and the user id in its data (the callback is always \<^verbatim>\<open>watch_tick\<close>).\<close>

record job =
  job_name :: string
  job_interval :: int
  job_user :: int

subsection \<open>The state file\<close>

text \<open>\<^verbatim>\<open>State.save\<close> writes \<^verbatim>\<open>self.model_dump_json(indent=2)\<close> and \<^verbatim>\<open>State.load\<close> reads the
  file with \<^verbatim>\<open>json.load\<close> and builds \<^verbatim>\<open>cls(**data)\<close>. The file is modelled by the JSON value
  it holds (the text layer, printing and parsing, is the identity on JSON values).\<close>

datatype json =
  JNull
| JBool bool
| JInt int
| JReal real
| JString string
| JArray "json list"
| JObject "(string \<times> json) list"

text \<open>Serialisation of the values the dictionaries hold. A float that is not finite has no
  JSON number: the model serialiser writes \<^verbatim>\<open>null\<close> for \<^verbatim>\<open>inf\<close>, \<^verbatim>\<open>-inf\<close> and \<^verbatim>\<open>nan\<close>
  (its default, \<^verbatim>\<open>ser_json_inf_nan = 'null'\<close>).\<close>

definition enc_int_opt :: "int option \<Rightarrow> json" where
  "enc_int_opt v = (case v of None \<Rightarrow> JNull | Some i \<Rightarrow> JInt i)"

definition enc_str_opt :: "string option \<Rightarrow> json" where
  "enc_str_opt v = (case v of None \<Rightarrow> JNull | Some s \<Rightarrow> JString s)"

definition enc_bool_opt :: "bool option \<Rightarrow> json" where
  "enc_bool_opt v = (case v of None \<Rightarrow> JNull | Some b \<Rightarrow> JBool b)"

definition enc_real_opt :: "real option \<Rightarrow> json" where
  "enc_real_opt v = (case v of None \<Rightarrow> JNull | Some r \<Rightarrow> JReal r)"

definition enc_float_opt :: "pyfloat option \<Rightarrow> json" where
  "enc_float_opt v = (case v of Some (Float r) \<Rightarrow> JReal r | _ \<Rightarrow> JNull)"

definition enc_settings :: "user_settings \<Rightarrow> json" where
  "enc_settings s =
     JObject [(''min_profit_stars'', JInt (min_profit_stars s)),
              (''min_profit_pct'', enc_float_opt (min_profit_pct s))]"

definition enc_catalog_entry :: "catalog_entry \<Rightarrow> json" where
  "enc_catalog_entry c =
     JObject [(''id'', JString (ce_id c)), (''title'', JString (ce_title c)),
              (''star_count'', enc_int_opt (star_count c)),
              (''total_count'', enc_int_opt (ce_total_count c)),
              (''remaining_count'', enc_int_opt (remaining_count c)),
              (''upgrade_star_count'', enc_int_opt (upgrade_star_count c))]"

definition enc_gift_item :: "gift_item \<Rightarrow> json" where
  "enc_gift_item g =
     JObject [(''type'', JString (gift_type g)), (''class'', JString (gift_class g)),
              (''gift_id'', enc_str_opt (gift_id g)), (''gift_title'', JString (gift_title g)),
              (''convert_star_count'', enc_int_opt (convert_star_count g)),
              (''can_be_upgraded'', enc_bool_opt (can_be_upgraded g)),
              (''prepaid_upgrade_star_count'', enc_int_opt (prepaid_upgrade_star_count g)),
              (''text'', enc_str_opt (gift_text g)), (''rank'', enc_int_opt (rank g)),
              (''can_be_transferred'', enc_bool_opt (can_be_transferred g)),
              (''transfer_star_count'', enc_int_opt (transfer_star_count g)),
              (''next_transfer_date'', enc_str_opt (next_transfer_date g))]"

definition enc_portfolio :: "portfolio \<Rightarrow> json" where
  "enc_portfolio p =
     JObject [(''total_count'', JInt (pf_total_count p)),
              (''gifts'', JArray (map enc_gift_item (pf_gifts p))),
              (''ts'', enc_real_opt (pf_ts p))]"

definition enc_dict :: "('a \<Rightarrow> json) \<Rightarrow> (string \<times> 'a) list \<Rightarrow> json" where
  "enc_dict f d = JObject (map (\<lambda>(k, v). (k, f v)) d)"

definition model_dump_json :: "State \<Rightarrow> json" where
  "model_dump_json s =
     JObject [(''connections'', enc_dict JString (connections s)),
              (''chats'', enc_dict JInt (chats s)),
              (''settings'', enc_dict enc_settings (settings s)),
              (''last_catalog'', enc_dict enc_catalog_entry (last_catalog s)),
              (''last_portfolio'', enc_dict enc_portfolio (last_portfolio s))]"


















subsection \<open>The world\<close>

text \<open>The world a handler runs in: the module-level \<^verbatim>\<open>STATE\<close>, the state file (\<open>None\<close>
  while it does not exist), the job queue, the requests sent to the platform so far, and
  what was printed.\<close>

record world =
  STATE :: State
  state_file :: "json option"
  jobs :: "job list"
  calls :: "api_call list"
  printed :: "error list"

type_synonym 'a outcome = "(error + 'a) \<times> world"

text \<open>\<^verbatim>\<open>State.save\<close>: the file is replaced by the dump of the snapshot in memory.
  \<^verbatim>\<open>State.load\<close>: the snapshot the file gives, the default one when there is no file.\<close>

definition save :: "world \<Rightarrow> world" where
  "save w = w\<lparr>state_file := Some (model_dump_json (STATE w))\<rparr>"






subsection \<open>\<^verbatim>\<open>build_catalog\<close>\<close>

text \<open>\<^verbatim>\<open>x or default\<close> on an optional string.\<close>

definition or_default :: "string option \<Rightarrow> string \<Rightarrow> string" where
  "or_default s d = (if truthy_str s then the s else d)"

definition catalog_entry_of :: "api_gift \<Rightarrow> catalog_entry" where
  "catalog_entry_of g =
     \<lparr>ce_id = ag_id g, ce_title = or_default (ag_emoji g) ''Gift'', star_count = ag_star_count g,
      ce_total_count = ag_total_count g, remaining_count = ag_remaining_count g,
      upgrade_star_count = ag_upgrade_star_count g\<rparr>"

text \<open>The dictionary comprehension \<^verbatim>\<open>{g["id"]: g for g in catalog}\<close>.\<close>

definition catalog_dict :: "catalog_entry list \<Rightarrow> catalog" where
  "catalog_dict entries = fold (\<lambda>g d. AList.update (ce_id g) g d) entries []"

definition build_catalog :: "env \<Rightarrow> world \<Rightarrow> (catalog_entry list) outcome" where
  "build_catalog e w =
     (let w1 = w\<lparr>calls := calls w @ [GetAvailableGifts]\<rparr> in
      case get_available_gifts e of
        Inl err \<Rightarrow> (Inl err, w1)
      | Inr gifts_obj \<Rightarrow>
          (let catalog = map catalog_entry_of gifts_obj;
               w2 = w1\<lparr>STATE := (STATE w1)\<lparr>last_catalog := catalog_dict catalog\<rparr>\<rparr>
           in (Inr catalog, save w2)))"

subsection \<open>\<^verbatim>\<open>fetch_portfolio\<close>\<close>

definition item_of :: "owned_gift \<Rightarrow> gift_item" where
  "item_of og =
     (if og_type og = ''regular''
      then \<lparr>gift_type = og_type og, gift_class = ''regular'', gift_id = og_gift_id og,
            gift_title = or_default (og_emoji og) ''Gift'',
            convert_star_count = og_convert_star_count og,
            can_be_upgraded = og_can_be_upgraded og,
            prepaid_upgrade_star_count = og_prepaid_upgrade_star_count og,
            gift_text = og_text og, rank = None, can_be_transferred = None,
            transfer_star_count = None, next_transfer_date = None\<rparr>
      else \<lparr>gift_type = og_type og, gift_class = ''unique'', gift_id = og_gift_id og,
            gift_title = or_default (og_emoji og) ''Unique'',
            convert_star_count = None, can_be_upgraded = None,
            prepaid_upgrade_star_count = None, gift_text = None, rank = og_rank og,
            can_be_transferred = og_can_be_transferred og,
            transfer_star_count = og_transfer_star_count og,
            next_transfer_date = og_next_transfer_date og\<rparr>)"

text \<open>The \<^verbatim>\<open>while True\<close> loop over the pages. The platform decides when the pages end, so
  the loop need not return: \<open>None\<close> is the run that never leaves it. \<open>n\<close> counts the
  requests made, \<open>cs\<close> is the log of requests.\<close>

partial_function (option) fetch_pages ::
  "env \<Rightarrow> string \<Rightarrow> nat \<Rightarrow> string option \<Rightarrow> gift_item list \<Rightarrow> api_call list \<Rightarrow>
     ((error + int \<times> gift_item list) \<times> api_call list) option" where
  "fetch_pages e bc n offset all_gifts cs =
     (case get_business_account_gifts e n bc offset of
        Inl err \<Rightarrow> Some (Inl err, cs @ [GetBusinessAccountGifts bc offset])
      | Inr resp \<Rightarrow>
          if \<not> truthy_str (page_next_offset resp)
          then Some (Inr (page_total_count resp, all_gifts @ map item_of (page_gifts resp)),
                     cs @ [GetBusinessAccountGifts bc offset])
          else fetch_pages e bc (Suc n) (page_next_offset resp)
                 (all_gifts @ map item_of (page_gifts resp))
                 (cs @ [GetBusinessAccountGifts bc offset]))"

declare fetch_pages.simps [code]

definition fetch_portfolio :: "env \<Rightarrow> world \<Rightarrow> int \<Rightarrow> (portfolio outcome) option" where
  "fetch_portfolio e w user_id =
     (let bc = map_of (connections (STATE w)) (str_int user_id) in
      if \<not> truthy_str bc
      then Some (Inr \<lparr>pf_total_count = 0, pf_gifts = [], pf_ts = None\<rparr>, w)
      else (case fetch_pages e (the bc) 0 None [] (calls w) of
              None \<Rightarrow> None
            | Some (Inl err, cs) \<Rightarrow> Some (Inl err, w\<lparr>calls := cs\<rparr>)
            | Some (Inr (n_total, all_gifts), cs) \<Rightarrow>
                (let pf = \<lparr>pf_total_count = n_total, pf_gifts = all_gifts, pf_ts = Some (clock e)\<rparr>;
                     w1 = w\<lparr>calls := cs\<rparr>;
                     w2 = w1\<lparr>STATE := (STATE w1)\<lparr>last_portfolio :=
                             AList.update (str_int user_id) pf (last_portfolio (STATE w1))\<rparr>\<rparr>
                 in Some (Inr pf, save w2))))"

subsection \<open>\<^verbatim>\<open>analyze_portfolio\<close>\<close>

text \<open>\<^verbatim>\<open>fetch_market_quotes_example\<close>, the stub the module ships: a quote with no prices for
  every id.\<close>

definition fetch_market_quotes_example :: "string list \<Rightarrow> quotes" where
  "fetch_market_quotes_example gift_ids =
     fold (\<lambda>gid d. AList.update gid
             \<lparr>quote_gift_id = gid, floor_stars = None, last_trade_stars = None\<rparr> d) gift_ids []"

definition unique_ids :: "gift_item list \<Rightarrow> string list" where
  "unique_ids gifts =
     map (\<lambda>g. the (gift_id g)) (filter (\<lambda>g. gift_class g = ''unique'' \<and> truthy_str (gift_id g)) gifts)"

text \<open>Line 201, \<^verbatim>\<open>STATE.last_catalog or {c["id"]: c for c in await build_catalog(context)}\<close>:
  the cached catalog, or a fetched one when the cache is empty.\<close>

definition cached_or_built_catalog :: "env \<Rightarrow> world \<Rightarrow> catalog outcome" where
  "cached_or_built_catalog e w =
     (if last_catalog (STATE w) \<noteq> [] then (Inr (last_catalog (STATE w)), w)
      else (case build_catalog e w of
              (Inl err, w1) \<Rightarrow> (Inl err, w1)
            | (Inr cs, w1) \<Rightarrow> (Inr (catalog_dict cs), w1)))"

text \<open>Line 202, \<^verbatim>\<open>STATE.last_portfolio.get(str(user_id)) or await fetch_portfolio(...)\<close>: the
  user's cached portfolio, or a fetched one when there is none.\<close>

definition cached_or_fetched_portfolio :: "env \<Rightarrow> world \<Rightarrow> int \<Rightarrow> (portfolio outcome) option" where
  "cached_or_fetched_portfolio e w user_id =
     (case map_of (last_portfolio (STATE w)) (str_int user_id) of
        Some pf \<Rightarrow> Some (Inr pf, w)
      | None \<Rightarrow> fetch_portfolio e w user_id)"

text \<open>Lines 201 to 212 gather the inputs: the catalog, the portfolio, the stub's quotes,
  and the user's threshold, 0 when the user has no settings. Lines 208 to 259 are
  \<open>analyze\<close>.\<close>

definition analyze_portfolio ::
  "env \<Rightarrow> world \<Rightarrow> int \<Rightarrow> ((suggestion list \<times> portfolio \<times> catalog_entry list) outcome) option" where
  "analyze_portfolio e w user_id =
     (case cached_or_built_catalog e w of
        (Inl err, w1) \<Rightarrow> Some (Inl err, w1)
      | (Inr catalog, w1) \<Rightarrow>
          (case cached_or_fetched_portfolio e w1 user_id of
             None \<Rightarrow> None
           | Some (Inl err, w2) \<Rightarrow> Some (Inl err, w2)
           | Some (Inr pf, w2) \<Rightarrow>
               (let quotes = fetch_market_quotes_example (unique_ids (pf_gifts pf));
                    min_profit =
                      (case map_of (settings (STATE w2)) (str_int user_id) of
                         Some s \<Rightarrow> min_profit_stars s
                       | None \<Rightarrow> 0);
                    suggestions =
                      analyze catalog quotes (iso_timestamp e) (clock e) min_profit (pf_gifts pf)
                in Some (Inr (suggestions, pf, map snd catalog), w2))))"

text \<open>The requests a run added to the log, and the requests for a page.\<close>

definition new_calls :: "world \<Rightarrow> world \<Rightarrow> api_call list" where
  "new_calls w w' = drop (length (calls w)) (calls w')"

definition page_call :: "api_call \<Rightarrow> bool" where
  "page_call c = (case c of GetBusinessAccountGifts bc offset \<Rightarrow> True | _ \<Rightarrow> False)"

text \<open>What no handler modelled here but \<^verbatim>\<open>/watch\<close> writes: the connections, the chat
  bindings, the settings, the job queue and the console.\<close>

definition untouched :: "world \<Rightarrow> world \<Rightarrow> bool" where
  "untouched w w' =
     (connections (STATE w') = connections (STATE w) \<and> chats (STATE w') = chats (STATE w) \<and>
      settings (STATE w') = settings (STATE w) \<and> jobs w' = jobs w \<and> printed w' = printed w)"

subsection \<open>\<^verbatim>\<open>watch_cmd\<close>\<close>

text \<open>The update a command handler receives: the sender, the chat of the message (where
  \<^verbatim>\<open>reply_text\<close> answers) and the words after the command.\<close>

record update =
  effective_user :: "int option"
  effective_chat :: int
  args :: "string list"

text \<open>The job queue of the library: \<^verbatim>\<open>get_jobs_by_name\<close> lists the jobs of a name,
  \<^verbatim>\<open>schedule_removal\<close> takes a job out of the queue, \<^verbatim>\<open>run_repeating\<close> adds one.\<close>

definition get_jobs_by_name :: "job list \<Rightarrow> string \<Rightarrow> job list" where
  "get_jobs_by_name js name = filter (\<lambda>j. job_name j = name) js"

definition schedule_removal :: "job \<Rightarrow> job list \<Rightarrow> job list" where
  "schedule_removal j js = remove1 j js"

definition run_repeating :: "int \<Rightarrow> string \<Rightarrow> int \<Rightarrow> job list \<Rightarrow> job list" where
  "run_repeating interval name user_id js =
     js @ [\<lparr>job_name = name, job_interval = interval, job_user = user_id\<rparr>]"

definition watch_reply :: "env \<Rightarrow> int \<Rightarrow> pyfloat \<Rightarrow> string" where
  "watch_reply e min_stars min_pct =
     ''Alerty vklyucheny: min profit '' @ str_int min_stars @ ''*, min '' @ str_float e min_pct @
     ''%. Budu proveryat raz v '' @ str_int (poll_interval e div 60) @ '' min.''"

text \<open>The name of a user's job, \<^verbatim>\<open>f"watch_{user.id}"\<close>.\<close>

definition watch_name :: "int \<Rightarrow> string" where
  "watch_name user_id = ''watch_'' @ str_int user_id"

text \<open>Line 350, \<^verbatim>\<open>int(args[0]) if len(args) >= 1 and args[0].isdigit() else 0\<close>, and line
  351, \<^verbatim>\<open>float(args[1]) if len(args) >= 2 else 0.0\<close>; \<open>None\<close> is the \<^verbatim>\<open>ValueError\<close>.\<close>

definition min_stars_arg :: "env \<Rightarrow> string list \<Rightarrow> int option" where
  "min_stars_arg e a = (if length a \<ge> 1 \<and> str_isdigit e (a ! 0) then int_of_str e (a ! 0) else Some 0)"

definition min_pct_arg :: "env \<Rightarrow> string list \<Rightarrow> pyfloat option" where
  "min_pct_arg e a = (if length a \<ge> 2 then parse_float e (a ! 1) else Some (Float 0))"

text \<open>Neither line raises; a command is accepted when neither raises and the application
  has a job queue.\<close>

definition int_arg_ok :: "env \<Rightarrow> update \<Rightarrow> bool" where
  "int_arg_ok e upd = (min_stars_arg e (args upd) \<noteq> None)"

definition float_arg_ok :: "env \<Rightarrow> update \<Rightarrow> bool" where
  "float_arg_ok e upd = (min_pct_arg e (args upd) \<noteq> None)"


text \<open>\<^verbatim>\<open>watch_cmd\<close>. Line 350 can raise from \<^verbatim>\<open>int\<close>, line 351 from \<^verbatim>\<open>float\<close>, both before
  anything is written; lines 353 and 354 store and save the settings; line 359 raises when
  \<^verbatim>\<open>context.job_queue\<close> is \<^verbatim>\<open>None\<close>; lines 359 to 363 replace the user's job; line 365
  sends the reply.\<close>

definition watch_cmd :: "env \<Rightarrow> world \<Rightarrow> update \<Rightarrow> unit outcome" where
  "watch_cmd e w upd =
     (case effective_user upd of
        None \<Rightarrow> (Inr (), w)
      | Some user_id \<Rightarrow>
          (let a = args upd in
           case min_stars_arg e a of
             None \<Rightarrow> (Inl ValueError, w)
           | Some min_stars \<Rightarrow>
               (case min_pct_arg e a of
                  None \<Rightarrow> (Inl ValueError, w)
                | Some min_pct \<Rightarrow>
                    (let w1 = save (w\<lparr>STATE := (STATE w)\<lparr>settings :=
                                AList.update (str_int user_id)
                                  \<lparr>min_profit_stars = min_stars, min_profit_pct = Some min_pct\<rparr>
                                  (settings (STATE w))\<rparr>\<rparr>);
                         name = watch_name user_id
                     in if \<not> has_job_queue e then (Inl AttributeError, w1)
                        else
                          (let old = get_jobs_by_name (jobs w1) name;
                               w2 = w1\<lparr>jobs := fold schedule_removal old (jobs w1)\<rparr>;
                               w3 = w2\<lparr>jobs := run_repeating (poll_interval e) name user_id (jobs w2)\<rparr>;
                               text = watch_reply e min_stars min_pct;
                               w4 = w3\<lparr>calls := calls w3 @ [SendMessage (effective_chat upd) text]\<rparr>
                           in case send_message e (effective_chat upd) text of
                                Some err \<Rightarrow> (Inl err, w4)
                              | None \<Rightarrow> (Inr (), w4))))))"


subsection \<open>\<^verbatim>\<open>watch_tick\<close>\<close>

text \<open>The message text: \<^verbatim>\<open>"\n\n".join\<close> of one block per suggestion (the bullet is
  written \<open>-\<close>).\<close>

definition suggestion_block :: "suggestion \<Rightarrow> string" where
  "suggestion_block s = ''- <b>'' @ title s @ ''</b>'' @ [CHR 0x0A] @ details s"

fun join_blocks :: "string list \<Rightarrow> string" where
  "join_blocks [] = []"
| "join_blocks [b] = b"
| "join_blocks (b # bs) = b @ [CHR 0x0A, CHR 0x0A] @ join_blocks bs"

text \<open>Python's truth test on an optional integer.\<close>

definition truthy_int :: "int option \<Rightarrow> bool" where
  "truthy_int i = (case i of None \<Rightarrow> False | Some v \<Rightarrow> v \<noteq> 0)"

text \<open>The body of the \<^verbatim>\<open>try\<close> block (lines 373 to 378).\<close>

definition watch_tick_try :: "env \<Rightarrow> world \<Rightarrow> int \<Rightarrow> (unit outcome) option" where
  "watch_tick_try e w user_id =
     (case analyze_portfolio e w user_id of
        None \<Rightarrow> None
      | Some (Inl err, w1) \<Rightarrow> Some (Inl err, w1)
      | Some (Inr (suggestions, _), w1) \<Rightarrow>
          if suggestions \<noteq> []
          then (let chat_id = map_of (chats (STATE w1)) (str_int user_id) in
                if truthy_int chat_id
                then (let txt = join_blocks (map suggestion_block suggestions);
                          text = ''Obnovleniya po portfelyu:'' @ [CHR 0x0A, CHR 0x0A] @ txt;
                          w2 = w1\<lparr>calls := calls w1 @ [SendMessage (the chat_id) text]\<rparr>
                      in case send_message e (the chat_id) text of
                           Some err \<Rightarrow> Some (Inl err, w2)
                         | None \<Rightarrow> Some (Inr (), w2))
                else Some (Inr (), w1))
          else Some (Inr (), w1))"

text \<open>\<^verbatim>\<open>watch_tick\<close>: the user id comes from the job's data; \<^verbatim>\<open>except Exception as e\<close>
  prints the exception and ends the tick normally.\<close>

definition watch_tick :: "env \<Rightarrow> world \<Rightarrow> job \<Rightarrow> (unit outcome) option" where
  "watch_tick e w j =
     (let user_id = job_user j in
      case watch_tick_try e w user_id of
        None \<Rightarrow> None
      | Some (Inl err, w1) \<Rightarrow> Some (Inr (), w1\<lparr>printed := printed w1 @ [err]\<rparr>)
      | Some (Inr u, w1) \<Rightarrow> Some (Inr (), w1))"

subsection \<open>Sample inputs\<close>

text \<open>A regular item worth 150 stars, a regular item that cannot be converted but can be
  upgraded, a unique item with no transfer date and one whose transfer date lies ahead, a
  catalog, quotes, and a parser that knows one date.\<close>

definition sample_regular :: gift_item where
  "sample_regular =
     \<lparr>gift_type = ''regular'', gift_class = ''regular'', gift_id = Some ''g1'',
      gift_title = ''Gift'', convert_star_count = Some 150, can_be_upgraded = Some True,
      prepaid_upgrade_star_count = None, gift_text = None, rank = None,
      can_be_transferred = None, transfer_star_count = None, next_transfer_date = None\<rparr>"

definition sample_upgradable :: gift_item where
  "sample_upgradable = sample_regular\<lparr>gift_id := Some ''g2'', convert_star_count := None\<rparr>"

definition sample_unique :: gift_item where
  "sample_unique =
     \<lparr>gift_type = ''unique'', gift_class = ''unique'', gift_id = Some ''u1'',
      gift_title = ''Unique'', convert_star_count = None, can_be_upgraded = None,
      prepaid_upgrade_star_count = None, gift_text = None, rank = None,
      can_be_transferred = Some True, transfer_star_count = Some 25, next_transfer_date = None\<rparr>"

definition sample_locked :: gift_item where
  "sample_locked = sample_unique\<lparr>gift_id := Some ''u2'', next_transfer_date := Some ''2030-01-01T00:00:00+00:00''\<rparr>"

definition sample_catalog :: catalog where
  "sample_catalog =
     [(''g2'', \<lparr>ce_id = ''g2'', ce_title = ''Gift'', star_count = Some 50, ce_total_count = None,
               remaining_count = None, upgrade_star_count = Some 75\<rparr>),
      (''g3'', \<lparr>ce_id = ''g3'', ce_title = ''Gift'', star_count = Some 10, ce_total_count = None,
               remaining_count = None, upgrade_star_count = None\<rparr>)]"


definition zero_floor_quotes :: quotes where
  "zero_floor_quotes = [(''u1'', \<lparr>quote_gift_id = ''u1'', floor_stars = Some 0, last_trade_stars = None\<rparr>)]"

definition sample_iso_timestamp :: "string \<Rightarrow> real option" where
  "sample_iso_timestamp s = (if s = ''2030-01-01T00:00:00+00:00'' then Some 1893456000 else None)"

text \<open>A platform that answers (one catalog gift, one page with one regular
  gift), one whose catalog request fails, one whose page request fails, one whose send
  fails; a user with a connection, a chat and nothing cached; a \<^verbatim>\<open>/watch 100 5\<close>, a
  \<^verbatim>\<open>/watch 100 abc\<close>, a \<^verbatim>\<open>/watch abc\<close>, a \<^verbatim>\<open>/watch\<close> with the superscript two and
  a \<^verbatim>\<open>/watch 1 inf\<close> from user 7, and a \<^verbatim>\<open>/watch 100 5\<close> from user 8.\<close>

definition sample_api_gift :: api_gift where
  "sample_api_gift =
     \<lparr>ag_id = ''g2'', ag_emoji = None, ag_star_count = Some 50, ag_total_count = None,
      ag_remaining_count = None, ag_upgrade_star_count = Some 75\<rparr>"

definition sample_owned_regular :: owned_gift where
  "sample_owned_regular =
     \<lparr>og_type = ''regular'', og_gift_id = Some ''g2'', og_emoji = None,
      og_convert_star_count = Some 150, og_can_be_upgraded = Some True,
      og_prepaid_upgrade_star_count = None, og_text = None, og_rank = None,
      og_can_be_transferred = None, og_transfer_star_count = None,
      og_next_transfer_date = None\<rparr>"

definition sample_page :: gifts_page where
  "sample_page = \<lparr>page_total_count = 1, page_gifts = [sample_owned_regular], page_next_offset = None\<rparr>"

text \<open>\<^verbatim>\<open>isdigit\<close> and \<^verbatim>\<open>int\<close> on the strings of the samples: the words of \<open>0\<close> to \<open>9\<close>, which
  \<^verbatim>\<open>int\<close> reads in base ten, and the superscript two (U+00B2), which passes \<^verbatim>\<open>isdigit\<close>
  and which \<^verbatim>\<open>int\<close> rejects. \<^verbatim>\<open>float\<close> on them: \<open>5\<close> and \<open>inf\<close>.\<close>

definition ascii_digits :: "string \<Rightarrow> bool" where
  "ascii_digits s = (s \<noteq> [] \<and> list_all (\<lambda>c. c \<in> set ''0123456789'') s)"

definition sample_isdigit :: "string \<Rightarrow> bool" where
  "sample_isdigit s = (ascii_digits s \<or> s = [CHR 0xB2])"

definition sample_int :: "string \<Rightarrow> int option" where
  "sample_int s =
     (if ascii_digits s then Some (foldl (\<lambda>acc c. 10 * acc + (int (of_char c) - 48)) 0 s)
      else None)"

definition sample_float :: "string \<Rightarrow> pyfloat option" where
  "sample_float s = (if s = ''5'' then Some (Float 5) else if s = ''inf'' then Some Inf else None)"

definition sample_env :: env where
  "sample_env =
     \<lparr>get_available_gifts = Inr [sample_api_gift],
      get_business_account_gifts = (\<lambda>n bc offset. Inr sample_page),
      send_message = (\<lambda>chat_id text. None),
      clock = 1700000000,
      iso_timestamp = sample_iso_timestamp,
      str_isdigit = sample_isdigit,
      int_of_str = sample_int,
      parse_float = sample_float,
      str_float = (\<lambda>f. if f = Inf then ''inf'' else ''5.0''),
      poll_interval = 1800,
      has_job_queue = True\<rparr>"

definition no_queue_env :: env where
  "no_queue_env = sample_env\<lparr>has_job_queue := False\<rparr>"

definition catalog_down_env :: env where
  "catalog_down_env = sample_env\<lparr>get_available_gifts := Inl TelegramError\<rparr>"

definition send_down_env :: env where
  "send_down_env = sample_env\<lparr>send_message := (\<lambda>chat_id text. Some TelegramError)\<rparr>"

definition pages_down_env :: env where
  "pages_down_env = sample_env\<lparr>get_business_account_gifts := (\<lambda>n bc offset. Inl TelegramError)\<rparr>"

definition sample_state :: State where
  "sample_state =
     \<lparr>connections = [(''7'', ''bc7'')], chats = [(''7'', 7007)], settings = [],
      last_catalog = [], last_portfolio = []\<rparr>"

definition sample_world :: world where
  "sample_world =
     \<lparr>STATE = sample_state, state_file = Some (model_dump_json sample_state), jobs = [],
      calls = [], printed = []\<rparr>"


definition watch_100_abc :: update where
  "watch_100_abc = \<lparr>effective_user = Some 7, effective_chat = 7007, args = [''100'', ''abc'']\<rparr>"

definition watch_abc :: update where
  "watch_abc = \<lparr>effective_user = Some 7, effective_chat = 7007, args = [''abc'']\<rparr>"

definition watch_sup2 :: update where
  "watch_sup2 = \<lparr>effective_user = Some 7, effective_chat = 7007, args = [[CHR 0xB2], ''5'']\<rparr>"



definition sample_job :: job where
  "sample_job = \<lparr>job_name = ''watch_7'', job_interval = 1800, job_user = 7\<rparr>"

definition cached_catalog_world :: world where
  "cached_catalog_world = sample_world\<lparr>STATE := sample_state\<lparr>last_catalog := sample_catalog\<rparr>\<rparr>"

definition sample_portfolio :: portfolio where
  "sample_portfolio =
     \<lparr>pf_total_count = 2, pf_gifts = [sample_regular, sample_locked], pf_ts = Some 1690000000\<rparr>"

definition cached_world :: world where
  "cached_world =
     sample_world\<lparr>STATE := sample_state\<lparr>last_catalog := sample_catalog,
                                         last_portfolio := [(''7'', sample_portfolio)]\<rparr>\<rparr>"


section \<open>Properties of the rules\<close>

subsection \<open>The loops append, item by item\<close>

lemma regular_step_append: "regular_step cat m r acc = acc @ regular_step cat m r []"
  by (simp add: regular_step_def Let_def split: option.splits)

lemma regular_loop_append: "regular_loop cat m rs acc = acc @ regular_loop cat m rs []"
proof (induction rs arbitrary: acc)
  case Nil
  show ?case by simp
next
  case (Cons r rs)
  have "regular_loop cat m (r # rs) acc = regular_loop cat m rs (regular_step cat m r acc)"
    by simp
  also have "\<dots> = regular_step cat m r acc @ regular_loop cat m rs []"
    by (rule Cons.IH)
  also have "\<dots> = acc @ regular_step cat m r [] @ regular_loop cat m rs []"
    using regular_step_append [of cat m r acc] by simp
  also have "regular_step cat m r [] @ regular_loop cat m rs [] = regular_loop cat m (r # rs) []"
    using Cons.IH [of "regular_step cat m r []"] by simp
  finally show ?case .
qed

lemma regular_loop_Cons: "regular_loop cat m (r # rs) [] = regular_step cat m r [] @ regular_loop cat m rs []"
  using regular_loop_append [of cat m rs "regular_step cat m r []"] by simp

lemma regular_loop_app: "regular_loop cat m (xs @ ys) [] = regular_loop cat m xs [] @ regular_loop cat m ys []"
  by (induction xs) (simp_all add: regular_loop_Cons del: regular_loop.simps(2))

lemma unique_step_append: "unique_step qs ts now u acc = acc @ unique_step qs ts now u []"
  by (simp add: unique_step_def)

lemma unique_loop_append: "unique_loop qs ts now us acc = acc @ unique_loop qs ts now us []"
proof (induction us arbitrary: acc)
  case Nil
  show ?case by simp
next
  case (Cons u us)
  have "unique_loop qs ts now (u # us) acc = unique_step qs ts now u acc @ unique_loop qs ts now us []"
    using Cons.IH [of "unique_step qs ts now u acc"] by simp
  also have "\<dots> = acc @ unique_step qs ts now u [] @ unique_loop qs ts now us []"
    using unique_step_append [of qs ts now u acc] by simp
  also have "unique_step qs ts now u [] @ unique_loop qs ts now us [] = unique_loop qs ts now (u # us) []"
    using Cons.IH [of "unique_step qs ts now u []"] by simp
  finally show ?case .
qed

lemma unique_loop_Cons: "unique_loop qs ts now (u # us) [] = unique_step qs ts now u [] @ unique_loop qs ts now us []"
  using unique_loop_append [of qs ts now us "unique_step qs ts now u []"] by simp

lemma unique_loop_app: "unique_loop qs ts now (xs @ ys) [] = unique_loop qs ts now xs [] @ unique_loop qs ts now ys []"
  by (induction xs) (simp_all add: unique_loop_Cons del: unique_loop.simps(2))

lemma collect_split:
  "collect cat qs ts now m gifts =
     regular_loop cat m (regulars gifts) [] @ unique_loop qs ts now (uniques gifts) []"
  unfolding collect_def by (rule unique_loop_append)

lemma collect_regular_item:
  assumes "gift_class r = ''regular''"
  shows "collect cat qs ts now m (pre @ r # post) =
     regular_loop cat m (regulars pre) [] @ regular_step cat m r [] @
     regular_loop cat m (regulars post) [] @ unique_loop qs ts now (uniques (pre @ post)) []"
proof -
  have "regulars (pre @ r # post) = regulars pre @ r # regulars post"
    using assms by (simp add: regulars_def)
  moreover have "uniques (pre @ r # post) = uniques (pre @ post)"
    using assms by (simp add: uniques_def)
  ultimately show ?thesis
    by (simp add: collect_split regular_loop_app regular_loop_Cons del: regular_loop.simps(2))
qed

lemma collect_unique_item:
  assumes "gift_class u = ''unique''"
  shows "collect cat qs ts now m (pre @ u # post) =
     regular_loop cat m (regulars (pre @ post)) [] @ unique_loop qs ts now (uniques pre) [] @
     unique_step qs ts now u [] @ unique_loop qs ts now (uniques post) []"
proof -
  have "uniques (pre @ u # post) = uniques pre @ u # uniques post"
    using assms by (simp add: uniques_def)
  moreover have "regulars (pre @ u # post) = regulars (pre @ post)"
    using assms by (simp add: regulars_def)
  ultimately show ?thesis
    by (simp add: collect_split unique_loop_app unique_loop_Cons del: unique_loop.simps(2))
qed

subsection \<open>The placeholder step, empty loops, sample renderings\<close>

lemma analyze_collect:
  "analyze cat qs ts now m gifts =
     (if collect cat qs ts now m gifts = [] then [placeholder] else collect cat qs ts now m gifts)"
  by (simp add: analyze_def Let_def)

lemma regular_loop_empty:
  "regular_loop cat m rs [] = [] \<longleftrightarrow> (\<forall>r \<in> set rs. regular_step cat m r [] = [])"
  by (induction rs) (simp_all add: regular_loop_Cons del: regular_loop.simps(2))

lemma unique_loop_empty:
  "unique_loop qs ts now us [] = [] \<longleftrightarrow> (\<forall>u \<in> set us. unique_step qs ts now u [] = [])"
  by (induction us) (simp_all add: unique_loop_Cons del: unique_loop.simps(2))

lemma str_int_150: "str_int 150 = ''150''" by code_simp
lemma str_int_75: "str_int 75 = ''75''" by code_simp

lemma collect_empty_iff:
  "collect cat qs ts now m gifts = [] \<longleftrightarrow>
     (\<forall>g \<in> set gifts. (gift_class g = ''regular'' \<longrightarrow> regular_step cat m g [] = []) \<and>
                      (gift_class g = ''unique'' \<longrightarrow> unique_step qs ts now g [] = []))"
  by (auto simp add: collect_split regular_loop_empty unique_loop_empty regulars_def uniques_def)

subsection \<open>The job queue under \<^verbatim>\<open>/watch\<close>\<close>


















subsection \<open>What \<^verbatim>\<open>analyze_portfolio\<close> leaves alone\<close>

lemma str_int_7: "str_int 7 = ''7''" by code_simp

lemma untouched_refl: "untouched w w"
  by (simp add: untouched_def)

lemma untouched_trans: "untouched w w1 \<Longrightarrow> untouched w1 w2 \<Longrightarrow> untouched w w2"
  by (simp add: untouched_def)

lemma build_catalog_untouched: "build_catalog e w = (r, w') \<Longrightarrow> untouched w w'"
  by (auto simp add: build_catalog_def Let_def save_def untouched_def split: sum.splits)

lemma fetch_portfolio_untouched: "fetch_portfolio e w uid = Some (r, w') \<Longrightarrow> untouched w w'"
  by (auto simp add: fetch_portfolio_def Let_def save_def untouched_def
      split: if_splits option.splits sum.splits prod.splits)

lemma cached_or_built_catalog_untouched: "cached_or_built_catalog e w = (r, w') \<Longrightarrow> untouched w w'"
proof (cases "last_catalog (STATE w) \<noteq> []")
  case True
  assume "cached_or_built_catalog e w = (r, w')"
  with True show ?thesis by (simp add: cached_or_built_catalog_def untouched_refl)
next
  case False
  assume r: "cached_or_built_catalog e w = (r, w')"
  obtain rb wb where b: "build_catalog e w = (rb, wb)" by (cases "build_catalog e w")
  with r False have "w' = wb"
    by (auto simp add: cached_or_built_catalog_def split: sum.splits)
  with build_catalog_untouched [OF b] show ?thesis by simp
qed

lemma cached_or_fetched_portfolio_untouched:
  "cached_or_fetched_portfolio e w uid = Some (r, w') \<Longrightarrow> untouched w w'"
  by (auto simp add: cached_or_fetched_portfolio_def untouched_refl
      split: option.splits dest: fetch_portfolio_untouched)

lemma analyze_portfolio_stages:
  assumes "analyze_portfolio e w uid = Some (r, w')"
  obtains r1 w1 where "cached_or_built_catalog e w = (r1, w1)"
    and "(\<exists>err. r1 = Inl err \<and> r = Inl err \<and> w' = w1) \<or>
         (\<exists>catalog r2. r1 = Inr catalog \<and> cached_or_fetched_portfolio e w1 uid = Some (r2, w') \<and>
            ((\<exists>err. r2 = Inl err \<and> r = Inl err) \<or>
             (\<exists>pf. r2 = Inr pf \<and>
                r = Inr (analyze catalog (fetch_market_quotes_example (unique_ids (pf_gifts pf)))
                          (iso_timestamp e) (clock e)
                          (case map_of (settings (STATE w')) (str_int uid) of
                             Some s \<Rightarrow> min_profit_stars s | None \<Rightarrow> 0)
                          (pf_gifts pf),
                        pf, map snd catalog))))"
proof -
  obtain r1 w1 where f: "cached_or_built_catalog e w = (r1, w1)"
    by (cases "cached_or_built_catalog e w")
  show ?thesis
  proof (rule that [OF f], cases r1)
    case (Inl err)
    with assms f show "(\<exists>err. r1 = Inl err \<and> r = Inl err \<and> w' = w1) \<or>
         (\<exists>catalog r2. r1 = Inr catalog \<and> cached_or_fetched_portfolio e w1 uid = Some (r2, w') \<and>
            ((\<exists>err. r2 = Inl err \<and> r = Inl err) \<or>
             (\<exists>pf. r2 = Inr pf \<and>
                r = Inr (analyze catalog (fetch_market_quotes_example (unique_ids (pf_gifts pf)))
                          (iso_timestamp e) (clock e)
                          (case map_of (settings (STATE w')) (str_int uid) of
                             Some s \<Rightarrow> min_profit_stars s | None \<Rightarrow> 0)
                          (pf_gifts pf),
                        pf, map snd catalog))))"
      by (simp add: analyze_portfolio_def)
  next
    case (Inr catalog)
    with assms f show "(\<exists>err. r1 = Inl err \<and> r = Inl err \<and> w' = w1) \<or>
         (\<exists>catalog r2. r1 = Inr catalog \<and> cached_or_fetched_portfolio e w1 uid = Some (r2, w') \<and>
            ((\<exists>err. r2 = Inl err \<and> r = Inl err) \<or>
             (\<exists>pf. r2 = Inr pf \<and>
                r = Inr (analyze catalog (fetch_market_quotes_example (unique_ids (pf_gifts pf)))
                          (iso_timestamp e) (clock e)
                          (case map_of (settings (STATE w')) (str_int uid) of
                             Some s \<Rightarrow> min_profit_stars s | None \<Rightarrow> 0)
                          (pf_gifts pf),
                        pf, map snd catalog))))"
      by (auto simp add: analyze_portfolio_def Let_def split: option.splits sum.splits prod.splits)
  qed
qed

lemma analyze_portfolio_untouched:
  assumes "analyze_portfolio e w uid = Some (r, w')"
  shows "untouched w w'"
proof -
  from assms obtain r1 w1 where f: "cached_or_built_catalog e w = (r1, w1)"
    and c: "w' = w1 \<or> (\<exists>r2. cached_or_fetched_portfolio e w1 uid = Some (r2, w'))"
    by (rule analyze_portfolio_stages) blast
  have u1: "untouched w w1" using f by (rule cached_or_built_catalog_untouched)
  from c show ?thesis
  proof
    assume "w' = w1"
    with u1 show ?thesis by simp
  next
    assume "\<exists>r2. cached_or_fetched_portfolio e w1 uid = Some (r2, w')"
    then obtain r2 where "cached_or_fetched_portfolio e w1 uid = Some (r2, w')" ..
    then have "untouched w1 w'" by (rule cached_or_fetched_portfolio_untouched)
    with u1 show ?thesis by (rule untouched_trans)
  qed
qed

subsection \<open>What \<^verbatim>\<open>analyze_portfolio\<close> fetches and stores\<close>

lemma page_call_page: "page_call (GetBusinessAccountGifts bc offset)"
  by (simp add: page_call_def)

lemma fetch_pages_calls:
  "fetch_pages e bc n offset all_gifts cs = Some y \<Longrightarrow>
   \<exists>ys. snd y = cs @ GetBusinessAccountGifts bc offset # ys \<and> list_all page_call ys"
proof (induction rule: fetch_pages.raw_induct [rotated 1, consumes 1, case_names step])
  case (step f e bc n offset all_gifts cs y)
  note IH = step(1) and body = step(2)
  show ?case
  proof (cases "get_business_account_gifts e n bc offset")
    case (Inl err)
    with body show ?thesis by auto
  next
    case (Inr resp)
    show ?thesis
    proof (cases "truthy_str (page_next_offset resp)")
      case False
      with body Inr show ?thesis by auto
    next
      case True
      with body Inr have "f e bc (Suc n) (page_next_offset resp)
          (all_gifts @ map item_of (page_gifts resp)) (cs @ [GetBusinessAccountGifts bc offset]) = Some y"
        by simp
      from IH [OF this] obtain ys where
        "snd y = (cs @ [GetBusinessAccountGifts bc offset]) @
                 GetBusinessAccountGifts bc (page_next_offset resp) # ys" and "list_all page_call ys"
        by blast
      then show ?thesis by (auto simp add: page_call_page)
    qed
  qed
qed
lemma new_calls_append: "calls w' = calls w @ ys \<Longrightarrow> new_calls w w' = ys"
  by (simp add: new_calls_def)

lemma catalog_cached:
  "last_catalog (STATE w) \<noteq> [] \<Longrightarrow>
   cached_or_built_catalog e w = (Inr (last_catalog (STATE w)), w)"
  by (simp add: cached_or_built_catalog_def)

lemma catalog_request_fails:
  "last_catalog (STATE w) = [] \<Longrightarrow> get_available_gifts e = Inl err \<Longrightarrow>
   cached_or_built_catalog e w = (Inl err, w\<lparr>calls := calls w @ [GetAvailableGifts]\<rparr>)"
  by (simp add: cached_or_built_catalog_def build_catalog_def)

lemma catalog_fetched:
  "last_catalog (STATE w) = [] \<Longrightarrow> get_available_gifts e = Inr gs \<Longrightarrow>
   cached_or_built_catalog e w =
     (Inr (catalog_dict (map catalog_entry_of gs)),
      save (w\<lparr>calls := calls w @ [GetAvailableGifts],
             STATE := (STATE w)\<lparr>last_catalog := catalog_dict (map catalog_entry_of gs)\<rparr>\<rparr>))"
  by (simp add: cached_or_built_catalog_def build_catalog_def Let_def)

lemma portfolio_cached:
  "map_of (last_portfolio (STATE w)) (str_int uid) = Some pf \<Longrightarrow>
   cached_or_fetched_portfolio e w uid = Some (Inr pf, w)"
  by (simp add: cached_or_fetched_portfolio_def)

lemma portfolio_no_connection:
  "map_of (last_portfolio (STATE w)) (str_int uid) = None \<Longrightarrow>
   \<not> truthy_str (map_of (connections (STATE w)) (str_int uid)) \<Longrightarrow>
   cached_or_fetched_portfolio e w uid =
     Some (Inr \<lparr>pf_total_count = 0, pf_gifts = [], pf_ts = None\<rparr>, w)"
  by (simp add: cached_or_fetched_portfolio_def fetch_portfolio_def)

lemma portfolio_fetched:
  assumes "map_of (last_portfolio (STATE w)) (str_int uid) = None"
    and "map_of (connections (STATE w)) (str_int uid) = Some bc" and "bc \<noteq> []"
    and "cached_or_fetched_portfolio e w uid = Some (r, w')"
  shows "(\<exists>ys. calls w' = calls w @ GetBusinessAccountGifts bc None # ys \<and> list_all page_call ys)
     \<and> last_catalog (STATE w') = last_catalog (STATE w)
     \<and> (case r of
          Inl err \<Rightarrow> STATE w' = STATE w \<and> state_file w' = state_file w
        | Inr pf \<Rightarrow>
            last_portfolio (STATE w') = AList.update (str_int uid) pf (last_portfolio (STATE w)) \<and>
            state_file w' = Some (model_dump_json (STATE w')))"
proof -
  from assms have f: "fetch_portfolio e w uid = Some (r, w')"
    by (simp add: cached_or_fetched_portfolio_def)
  with assms(2,3) obtain y where y: "fetch_pages e bc 0 None [] (calls w) = Some y"
    by (cases "fetch_pages e bc 0 None [] (calls w)")
       (auto simp add: fetch_portfolio_def truthy_str_def)
  from fetch_pages_calls [OF y] obtain ys where
    ys: "snd y = calls w @ GetBusinessAccountGifts bc None # ys" "list_all page_call ys"
    by blast
  obtain ry cs where ry: "y = (ry, cs)" by (cases y)
  show ?thesis
  proof (cases ry)
    case (Inl err)
    with f y ry assms(2,3) ys show ?thesis
      by (auto simp add: fetch_portfolio_def truthy_str_def)
  next
    case (Inr tg)
    obtain tot gs where "tg = (tot, gs)" by (cases tg)
    with Inr f y ry assms(2,3) ys show ?thesis
      by (auto simp add: fetch_portfolio_def truthy_str_def Let_def save_def)
  qed
qed


lemma catalog_stage:
  assumes "cached_or_built_catalog e w = (r1, w1)"
  shows "last_portfolio (STATE w1) = last_portfolio (STATE w)
     \<and> connections (STATE w1) = connections (STATE w)
     \<and> (last_catalog (STATE w) \<noteq> [] \<longrightarrow> w1 = w \<and> r1 = Inr (last_catalog (STATE w)))
     \<and> (last_catalog (STATE w) = [] \<longrightarrow>
          calls w1 = calls w @ [GetAvailableGifts] \<and>
          (\<forall>err. get_available_gifts e = Inl err \<longrightarrow>
             r1 = Inl err \<and> w1 = w\<lparr>calls := calls w @ [GetAvailableGifts]\<rparr>) \<and>
          (\<forall>gs. get_available_gifts e = Inr gs \<longrightarrow>
             r1 = Inr (catalog_dict (map catalog_entry_of gs)) \<and>
             last_catalog (STATE w1) = catalog_dict (map catalog_entry_of gs) \<and>
             state_file w1 = Some (model_dump_json (STATE w1))))"
proof (cases "last_catalog (STATE w) = []")
  case False
  with assms catalog_cached [of w e] have "w1 = w" "r1 = Inr (last_catalog (STATE w))"
    by auto
  with False show ?thesis by simp
next
  case True
  show ?thesis
  proof (cases "get_available_gifts e")
    case (Inl err)
    with assms True catalog_request_fails [of w e err] show ?thesis by auto
  next
    case (Inr gs)
    with assms True catalog_fetched [of w e gs] show ?thesis by (auto simp add: save_def)
  qed
qed

lemma portfolio_stage:
  assumes "cached_or_fetched_portfolio e w1 uid = Some (r2, w')"
  shows "last_catalog (STATE w') = last_catalog (STATE w1)
     \<and> (\<exists>ys. calls w' = calls w1 @ ys \<and> list_all page_call ys)
     \<and> (\<forall>err. r2 = Inl err \<longrightarrow> STATE w' = STATE w1 \<and> state_file w' = state_file w1)
     \<and> (map_of (last_portfolio (STATE w1)) (str_int uid) \<noteq> None \<or>
        \<not> truthy_str (map_of (connections (STATE w1)) (str_int uid)) \<longrightarrow> w' = w1)
     \<and> (\<forall>bc. map_of (last_portfolio (STATE w1)) (str_int uid) = None \<and>
             map_of (connections (STATE w1)) (str_int uid) = Some bc \<and> bc \<noteq> [] \<longrightarrow>
           (\<exists>ys. calls w' = calls w1 @ GetBusinessAccountGifts bc None # ys) \<and>
           (\<forall>pf. r2 = Inr pf \<longrightarrow>
              last_portfolio (STATE w') = AList.update (str_int uid) pf (last_portfolio (STATE w1)) \<and>
              state_file w' = Some (model_dump_json (STATE w'))))"
proof (cases "map_of (last_portfolio (STATE w1)) (str_int uid)")
  case (Some pf)
  with assms portfolio_cached [of w1 uid pf e] show ?thesis by auto
next
  case None
  show ?thesis
  proof (cases "truthy_str (map_of (connections (STATE w1)) (str_int uid))")
    case False
    with assms None portfolio_no_connection [of w1 uid e] show ?thesis
      by (auto simp add: truthy_str_def)
  next
    case True
    then obtain bc where bc: "map_of (connections (STATE w1)) (str_int uid) = Some bc" "bc \<noteq> []"
      by (auto simp add: truthy_str_def split: option.splits)
    from portfolio_fetched [OF None bc assms] obtain ys where
      ys: "calls w' = calls w1 @ GetBusinessAccountGifts bc None # ys" "list_all page_call ys"
      and cat: "last_catalog (STATE w') = last_catalog (STATE w1)"
      and res: "case r2 of
          Inl err \<Rightarrow> STATE w' = STATE w1 \<and> state_file w' = state_file w1
        | Inr pf \<Rightarrow>
            last_portfolio (STATE w') = AList.update (str_int uid) pf (last_portfolio (STATE w1)) \<and>
            state_file w' = Some (model_dump_json (STATE w'))"
      by blast
    have "list_all page_call (GetBusinessAccountGifts bc None # ys)"
      using ys(2) by (simp add: page_call_page)
    with ys(1) have ext: "\<exists>zs. calls w' = calls w1 @ zs \<and> list_all page_call zs" by blast
    from cat ext res ys(1) None True bc show ?thesis
      by (cases r2) auto
  qed
qed


lemma not_page_call: "\<not> page_call GetAvailableGifts"
  by (simp add: page_call_def)

lemma analyze_portfolio_effects:
  assumes run: "analyze_portfolio e w uid = Some (r, w')"
  shows "(last_catalog (STATE w) \<noteq> [] \<longrightarrow>
            last_catalog (STATE w') = last_catalog (STATE w) \<and> list_all page_call (new_calls w w'))
     \<and> (\<forall>gs. last_catalog (STATE w) = [] \<and> get_available_gifts e = Inr gs \<longrightarrow>
            last_catalog (STATE w') = catalog_dict (map catalog_entry_of gs) \<and>
            state_file w' = Some (model_dump_json (STATE w')) \<and>
            (\<exists>ys. new_calls w w' = GetAvailableGifts # ys \<and> list_all page_call ys))
     \<and> (map_of (last_portfolio (STATE w)) (str_int uid) \<noteq> None \<or>
          \<not> truthy_str (map_of (connections (STATE w)) (str_int uid)) \<longrightarrow>
            last_portfolio (STATE w') = last_portfolio (STATE w) \<and>
            \<not> list_ex page_call (new_calls w w'))
     \<and> (\<forall>bc sugg pf cs. map_of (last_portfolio (STATE w)) (str_int uid) = None \<and>
            map_of (connections (STATE w)) (str_int uid) = Some bc \<and> bc \<noteq> [] \<and>
            r = Inr (sugg, pf, cs) \<longrightarrow>
            last_portfolio (STATE w') = AList.update (str_int uid) pf (last_portfolio (STATE w)) \<and>
            state_file w' = Some (model_dump_json (STATE w')) \<and>
            GetBusinessAccountGifts bc None \<in> set (new_calls w w'))
     \<and> (\<forall>err. r = Inl err \<longrightarrow> last_portfolio (STATE w') = last_portfolio (STATE w))"
proof -
  from run obtain r1 w1 where s1: "cached_or_built_catalog e w = (r1, w1)"
    and alt: "(\<exists>err. r1 = Inl err \<and> r = Inl err \<and> w' = w1) \<or>
         (\<exists>catalog r2. r1 = Inr catalog \<and> cached_or_fetched_portfolio e w1 uid = Some (r2, w') \<and>
            ((\<exists>err. r2 = Inl err \<and> r = Inl err) \<or> (\<exists>pf sugg cs. r2 = Inr pf \<and> r = Inr (sugg, pf, cs))))"
    by (rule analyze_portfolio_stages) blast
  note c = catalog_stage [OF s1]
  from c have pf1: "last_portfolio (STATE w1) = last_portfolio (STATE w)"
    and cn1: "connections (STATE w1) = connections (STATE w)" by simp_all
  have calls1: "calls w1 = calls w @ (if last_catalog (STATE w) = [] then [GetAvailableGifts] else [])"
    using c by auto
  from alt show ?thesis
  proof
    assume "\<exists>err. r1 = Inl err \<and> r = Inl err \<and> w' = w1"
    then obtain err where r1: "r1 = Inl err" and r: "r = Inl err" and w': "w' = w1" by blast
    from c r1 have empty: "last_catalog (STATE w) = []" by auto
    have nogs: "get_available_gifts e \<noteq> Inr gs" for gs
      using c r1 empty by auto
    have nc: "new_calls w w' = [GetAvailableGifts]"
      using calls1 empty w' by (simp add: new_calls_def)
    from empty nogs nc pf1 w' r show ?thesis
      by (simp add: not_page_call)
  next
    assume "\<exists>catalog r2. r1 = Inr catalog \<and> cached_or_fetched_portfolio e w1 uid = Some (r2, w') \<and>
            ((\<exists>err. r2 = Inl err \<and> r = Inl err) \<or> (\<exists>pf sugg cs. r2 = Inr pf \<and> r = Inr (sugg, pf, cs)))"
    then obtain catalog r2
      where r1: "r1 = Inr catalog" and s2: "cached_or_fetched_portfolio e w1 uid = Some (r2, w')"
      and res: "(\<exists>err. r2 = Inl err \<and> r = Inl err) \<or>
                (\<exists>pf sugg cs. r2 = Inr pf \<and> r = Inr (sugg, pf, cs))"
      by blast
    note p = portfolio_stage [OF s2]
    from p obtain ys where ys: "calls w' = calls w1 @ ys" "list_all page_call ys" by blast
    have nc: "new_calls w w' = (if last_catalog (STATE w) = [] then [GetAvailableGifts] else []) @ ys"
      using calls1 ys(1) by (simp add: new_calls_def)
    have cat': "last_catalog (STATE w') = last_catalog (STATE w1)" using p by simp
    have e1: "last_catalog (STATE w) \<noteq> [] \<longrightarrow>
            last_catalog (STATE w') = last_catalog (STATE w) \<and> list_all page_call (new_calls w w')"
      using c cat' nc ys(2) by auto
    have saved: "state_file w' = Some (model_dump_json (STATE w'))"
      if "state_file w1 = Some (model_dump_json (STATE w1))"
    proof (cases "map_of (last_portfolio (STATE w1)) (str_int uid) \<noteq> None \<or>
        \<not> truthy_str (map_of (connections (STATE w1)) (str_int uid))")
      case True
      with p have "w' = w1" by blast
      with that show ?thesis by simp
    next
      case False
      then obtain bc where bc: "map_of (last_portfolio (STATE w1)) (str_int uid) = None"
        "map_of (connections (STATE w1)) (str_int uid) = Some bc" "bc \<noteq> []"
        by (auto simp add: truthy_str_def split: option.splits)
      show ?thesis
      proof (cases r2)
        case (Inl err)
        with p that show ?thesis by simp
      next
        case (Inr pf)
        with p bc show ?thesis by blast
      qed
    qed
    have e2: "\<forall>gs. last_catalog (STATE w) = [] \<and> get_available_gifts e = Inr gs \<longrightarrow>
            last_catalog (STATE w') = catalog_dict (map catalog_entry_of gs) \<and>
            state_file w' = Some (model_dump_json (STATE w')) \<and>
            (\<exists>ys. new_calls w w' = GetAvailableGifts # ys \<and> list_all page_call ys)"
      using c cat' nc ys(2) saved by auto
    have e3: "map_of (last_portfolio (STATE w)) (str_int uid) \<noteq> None \<or>
          \<not> truthy_str (map_of (connections (STATE w)) (str_int uid)) \<longrightarrow>
            last_portfolio (STATE w') = last_portfolio (STATE w) \<and>
            \<not> list_ex page_call (new_calls w w')"
    proof
      assume "map_of (last_portfolio (STATE w)) (str_int uid) \<noteq> None \<or>
          \<not> truthy_str (map_of (connections (STATE w)) (str_int uid))"
      with p pf1 cn1 have "w' = w1" by auto
      with pf1 calls1 show "last_portfolio (STATE w') = last_portfolio (STATE w) \<and>
            \<not> list_ex page_call (new_calls w w')"
        by (simp add: new_calls_def not_page_call)
    qed
    have e4: "\<forall>bc sugg pf cs. map_of (last_portfolio (STATE w)) (str_int uid) = None \<and>
            map_of (connections (STATE w)) (str_int uid) = Some bc \<and> bc \<noteq> [] \<and>
            r = Inr (sugg, pf, cs) \<longrightarrow>
            last_portfolio (STATE w') = AList.update (str_int uid) pf (last_portfolio (STATE w)) \<and>
            state_file w' = Some (model_dump_json (STATE w')) \<and>
            GetBusinessAccountGifts bc None \<in> set (new_calls w w')"
    proof (intro allI impI, elim conjE)
      fix bc sugg pf cs
      assume a: "map_of (last_portfolio (STATE w)) (str_int uid) = None"
        "map_of (connections (STATE w)) (str_int uid) = Some bc" "bc \<noteq> []" "r = Inr (sugg, pf, cs)"
      with res have r2: "r2 = Inr pf" by auto
      from a pf1 cn1 have b: "map_of (last_portfolio (STATE w1)) (str_int uid) = None \<and>
             map_of (connections (STATE w1)) (str_int uid) = Some bc \<and> bc \<noteq> []" by simp
      with p obtain zs where zs: "calls w' = calls w1 @ GetBusinessAccountGifts bc None # zs"
        by blast
      from p b r2 have st: "last_portfolio (STATE w') = AList.update (str_int uid) pf (last_portfolio (STATE w1))"
        "state_file w' = Some (model_dump_json (STATE w'))" by blast+
      from zs calls1 have "GetBusinessAccountGifts bc None \<in> set (new_calls w w')"
        by (simp add: new_calls_def)
      with st pf1 show "last_portfolio (STATE w') = AList.update (str_int uid) pf (last_portfolio (STATE w)) \<and>
            state_file w' = Some (model_dump_json (STATE w')) \<and>
            GetBusinessAccountGifts bc None \<in> set (new_calls w w')" by simp
    qed
    have e5: "\<forall>err. r = Inl err \<longrightarrow> last_portfolio (STATE w') = last_portfolio (STATE w)"
      using res p pf1 by auto
    from e1 e2 e3 e4 e5 show ?thesis by blast
  qed
qed

subsection \<open>The quotes of the stub\<close>






subsection \<open>The state file read back\<close>











subsection \<open>Failures inside a tick\<close>

lemma watch_tick_try_catalog_failure:
  "last_catalog (STATE w) = [] \<Longrightarrow> get_available_gifts e = Inl err \<Longrightarrow>
   watch_tick_try e w uid = Some (Inl err, w\<lparr>calls := calls w @ [GetAvailableGifts]\<rparr>)"
  by (simp add: watch_tick_try_def analyze_portfolio_def cached_or_built_catalog_def
      build_catalog_def Let_def)

lemma watch_tick_try_portfolio_failure:
  "last_catalog (STATE w) \<noteq> [] \<Longrightarrow> map_of (last_portfolio (STATE w)) (str_int uid) = None \<Longrightarrow>
   map_of (connections (STATE w)) (str_int uid) = Some bc \<Longrightarrow> bc \<noteq> [] \<Longrightarrow>
   get_business_account_gifts e 0 bc None = Inl err \<Longrightarrow>
   watch_tick_try e w uid = Some (Inl err, w\<lparr>calls := calls w @ [GetBusinessAccountGifts bc None]\<rparr>)"
  by (simp add: watch_tick_try_def analyze_portfolio_def cached_or_built_catalog_def
      cached_or_fetched_portfolio_def fetch_portfolio_def truthy_str_def Let_def
      fetch_pages.simps [of e bc 0 None])

section \<open>The claims\<close>

text \<open>
  Claim C1. A regular item whose \<^verbatim>\<open>convert_star_count\<close> is an integer not below the
  threshold makes the loop append exactly one suggestion, the convert suggestion, whose
  details cite the star amount; that suggestion is no upgrade suggestion, whatever
  \<^verbatim>\<open>can_be_upgraded\<close> and the catalog hold. In the returned list it stands between what the
  regular items before it and after it produced.
\<close>

theorem convert_rule:
  "gift_class r = ''regular'' \<Longrightarrow> convert_star_count r = Some c \<Longrightarrow> m \<le> c \<Longrightarrow>
     regular_step cat m r [] = [convert_suggestion r c]
     \<and> details (convert_suggestion r c) = ''Mozhno poluchit '' @ str_int c @ '' * za obychnyj podarok.''
     \<and> (\<forall>r' up. convert_suggestion r c \<noteq> upgrade_suggestion r' up)
     \<and> analyze cat qs ts now m (pre @ r # post) =
         regular_loop cat m (regulars pre) [] @ [convert_suggestion r c] @
         regular_loop cat m (regulars post) [] @ unique_loop qs ts now (uniques (pre @ post)) []"
proof -
  assume cls: "gift_class r = ''regular''" and conv: "convert_star_count r = Some c" and le: "m \<le> c"
  have step: "regular_step cat m r [] = [convert_suggestion r c]"
    using conv le by (simp add: regular_step_def)
  have cite: "details (convert_suggestion r c) = ''Mozhno poluchit '' @ str_int c @ '' * za obychnyj podarok.''"
    by (simp add: convert_suggestion_def fmt_stars_def)
  have distinct: "\<forall>r' up. convert_suggestion r c \<noteq> upgrade_suggestion r' up"
    by (simp add: convert_suggestion_def upgrade_suggestion_def)
  have "collect cat qs ts now m (pre @ r # post) =
         regular_loop cat m (regulars pre) [] @ [convert_suggestion r c] @
         regular_loop cat m (regulars post) [] @ unique_loop qs ts now (uniques (pre @ post)) []"
    using collect_regular_item [OF cls, of cat qs ts now m pre post] step by simp
  then have "analyze cat qs ts now m (pre @ r # post) =
         regular_loop cat m (regulars pre) [] @ [convert_suggestion r c] @
         regular_loop cat m (regulars post) [] @ unique_loop qs ts now (uniques (pre @ post)) []"
    by (simp add: analyze_collect)
  with step cite distinct show ?thesis by blast
qed

theorem convert_rule_witness:
  "gift_class sample_regular = ''regular'' \<and> convert_star_count sample_regular = Some 150 \<and> (100::int) \<le> 150
   \<and> analyze sample_catalog [] sample_iso_timestamp 0 100 [sample_regular] =
       [\<lparr>title = ''Konvertirovat v Stars: Gift'', details = ''Mozhno poluchit 150 * za obychnyj podarok.''\<rparr>]"
  using convert_rule [of sample_regular 150 100 sample_catalog "[]" sample_iso_timestamp 0 "[]" "[]"]
  by (simp add: sample_regular_def convert_suggestion_def fmt_stars_def str_int_150 regulars_def uniques_def)

text \<open>
  Claim C2. A regular item whose \<^verbatim>\<open>convert_star_count\<close> is absent or below the threshold:
  when \<^verbatim>\<open>can_be_upgraded\<close> is true and the catalog has an entry for its gift id with an
  integer \<^verbatim>\<open>upgrade_star_count\<close>, the loop appends exactly one suggestion, the upgrade
  suggestion citing that cost; when the catalog has no upgrade cost for the item, the loop
  appends nothing for it and the collected list is the one of the portfolio without it.
\<close>

theorem upgrade_rule:
  "gift_class r = ''regular'' \<Longrightarrow>
   convert_star_count r = None \<or> (\<exists>c. convert_star_count r = Some c \<and> c < m) \<Longrightarrow>
     (can_be_upgraded r = Some True \<and> gift_id r = Some g \<and> map_of cat g = Some e \<and>
      upgrade_star_count e = Some up \<longrightarrow>
        regular_step cat m r [] = [upgrade_suggestion r up]
        \<and> details (upgrade_suggestion r up) =
            ''Apgrejd do unikalnogo stoit '' @ str_int up @ '' *. Ocenite rynok pered apgrejdom.''
        \<and> analyze cat qs ts now m (pre @ r # post) =
            regular_loop cat m (regulars pre) [] @ [upgrade_suggestion r up] @
            regular_loop cat m (regulars post) [] @ unique_loop qs ts now (uniques (pre @ post)) [])
   \<and> (\<not> (\<exists>g' e' up'. gift_id r = Some g' \<and> map_of cat g' = Some e' \<and> upgrade_star_count e' = Some up') \<longrightarrow>
        regular_step cat m r [] = []
        \<and> collect cat qs ts now m (pre @ r # post) = collect cat qs ts now m (pre @ post))"
proof -
  assume cls: "gift_class r = ''regular''"
    and low: "convert_star_count r = None \<or> (\<exists>c. convert_star_count r = Some c \<and> c < m)"
  have noconv: "\<not> (case convert_star_count r of None \<Rightarrow> False | Some c \<Rightarrow> c \<ge> m)"
    using low by (auto split: option.splits)
  have split: "collect cat qs ts now m (pre @ r # post) =
     regular_loop cat m (regulars pre) [] @ regular_step cat m r [] @
     regular_loop cat m (regulars post) [] @ unique_loop qs ts now (uniques (pre @ post)) []"
    by (rule collect_regular_item [OF cls])
  have first: "regular_step cat m r [] = [upgrade_suggestion r up]
        \<and> details (upgrade_suggestion r up) =
            ''Apgrejd do unikalnogo stoit '' @ str_int up @ '' *. Ocenite rynok pered apgrejdom.''
        \<and> analyze cat qs ts now m (pre @ r # post) =
            regular_loop cat m (regulars pre) [] @ [upgrade_suggestion r up] @
            regular_loop cat m (regulars post) [] @ unique_loop qs ts now (uniques (pre @ post)) []"
    if up: "can_be_upgraded r = Some True \<and> gift_id r = Some g \<and> map_of cat g = Some e \<and>
      upgrade_star_count e = Some up"
  proof -
    have step: "regular_step cat m r [] = [upgrade_suggestion r up]"
      using noconv up by (simp add: regular_step_def Let_def truthy_bool_def catalog_get_def)
    have cite: "details (upgrade_suggestion r up) =
            ''Apgrejd do unikalnogo stoit '' @ str_int up @ '' *. Ocenite rynok pered apgrejdom.''"
      by (simp add: upgrade_suggestion_def fmt_stars_def)
    have "analyze cat qs ts now m (pre @ r # post) =
            regular_loop cat m (regulars pre) [] @ [upgrade_suggestion r up] @
            regular_loop cat m (regulars post) [] @ unique_loop qs ts now (uniques (pre @ post)) []"
      using split step by (simp add: analyze_collect)
    with step cite show ?thesis by blast
  qed
  have second: "regular_step cat m r [] = []
        \<and> collect cat qs ts now m (pre @ r # post) = collect cat qs ts now m (pre @ post)"
    if none: "\<not> (\<exists>g' e' up'. gift_id r = Some g' \<and> map_of cat g' = Some e' \<and> upgrade_star_count e' = Some up')"
  proof -
    have step: "regular_step cat m r [] = []"
      using noconv none
      by (auto simp add: regular_step_def Let_def catalog_get_def split: option.splits)
    have "collect cat qs ts now m (pre @ post) =
       regular_loop cat m (regulars pre) [] @ regular_loop cat m (regulars post) [] @
       unique_loop qs ts now (uniques (pre @ post)) []"
      by (simp add: collect_split regulars_def regular_loop_app)
    with split step show ?thesis by simp
  qed
  from first second show ?thesis by blast
qed

theorem upgrade_rule_witness:
  "analyze sample_catalog [] sample_iso_timestamp 0 100 [sample_upgradable] =
       [\<lparr>title = ''Podumat ob apgrejde: Gift'',
         details = ''Apgrejd do unikalnogo stoit 75 *. Ocenite rynok pered apgrejdom.''\<rparr>]
   \<and> regular_step [] 100 sample_upgradable [] = []
   \<and> collect [] [] sample_iso_timestamp 0 100 [sample_unique, sample_upgradable] =
       collect [] [] sample_iso_timestamp 0 100 [sample_unique]"
proof -
  have cls: "gift_class sample_upgradable = ''regular''"
    by (simp add: sample_upgradable_def sample_regular_def)
  have low: "convert_star_count sample_upgradable = None \<or>
             (\<exists>c. convert_star_count sample_upgradable = Some c \<and> c < 100)"
    by (simp add: sample_upgradable_def)
  have up: "can_be_upgraded sample_upgradable = Some True \<and> gift_id sample_upgradable = Some ''g2'' \<and>
      map_of sample_catalog ''g2'' = Some (the (map_of sample_catalog ''g2'')) \<and>
      upgrade_star_count (the (map_of sample_catalog ''g2'')) = Some 75"
    by (simp add: sample_upgradable_def sample_regular_def sample_catalog_def)
  have none: "\<not> (\<exists>g' e' up'. gift_id sample_upgradable = Some g' \<and> map_of [] g' = Some e' \<and>
      upgrade_star_count e' = Some up')"
    by simp
  from upgrade_rule [OF cls low, of "''g2''" sample_catalog "the (map_of sample_catalog ''g2'')" 75
      "[]" sample_iso_timestamp 0 "[]" "[]"] up
  have a: "analyze sample_catalog [] sample_iso_timestamp 0 100 [sample_upgradable] =
       [upgrade_suggestion sample_upgradable 75]"
    by (simp add: regulars_def uniques_def)
  from upgrade_rule [OF cls low, of "''g2''" "[]" "snd (hd sample_catalog)" 0 "[]" sample_iso_timestamp 0 "[sample_unique]" "[]"] none
  have b: "regular_step [] 100 sample_upgradable [] = []
   \<and> collect [] [] sample_iso_timestamp 0 100 [sample_unique, sample_upgradable] =
       collect [] [] sample_iso_timestamp 0 100 [sample_unique]"
    by simp
  from a b show ?thesis
    by (simp add: upgrade_suggestion_def fmt_stars_def str_int_75 sample_upgradable_def sample_regular_def)
qed

text \<open>
  Claim C3. For a unique item the loop appends the ready-to-sell suggestion exactly when
  the transfer test holds, and the test holds when \<^verbatim>\<open>next_transfer_date\<close> is absent, when
  the date does not parse, or when its timestamp is not after the clock reading; a date
  that parses to a later time gives no suggestion. (\<^verbatim>\<open>datetime.fromisoformat\<close> rejects the
  empty string, which is the hypothesis on the parser.)
\<close>

theorem ready_to_sell_rule:
  "gift_class u = ''unique'' \<Longrightarrow> ts [] = None \<Longrightarrow>
     (can_transfer_now ts now u \<longleftrightarrow>
        (case next_transfer_date u of
           None \<Rightarrow> True
         | Some d \<Rightarrow> (case ts d of None \<Rightarrow> True | Some t \<Rightarrow> t \<le> now)))
     \<and> unique_step qs ts now u [] = (if can_transfer_now ts now u then [sell_suggestion qs u] else [])
     \<and> title (sell_suggestion qs u) = ''Unikalnyj gotov k prodazhe: '' @ gift_title u
     \<and> collect cat qs ts now m (pre @ u # post) =
         regular_loop cat m (regulars (pre @ post)) [] @ unique_loop qs ts now (uniques pre) [] @
         (if can_transfer_now ts now u then [sell_suggestion qs u] else []) @
         unique_loop qs ts now (uniques post) []"
proof -
  assume cls: "gift_class u = ''unique''" and empty: "ts [] = None"
  have can: "can_transfer_now ts now u \<longleftrightarrow>
        (case next_transfer_date u of
           None \<Rightarrow> True
         | Some d \<Rightarrow> (case ts d of None \<Rightarrow> True | Some t \<Rightarrow> t \<le> now))"
    using empty by (simp add: can_transfer_now_def Let_def truthy_str_def split: option.splits)
  have step: "unique_step qs ts now u [] = (if can_transfer_now ts now u then [sell_suggestion qs u] else [])"
    by (simp add: unique_step_def)
  have ttl: "title (sell_suggestion qs u) = ''Unikalnyj gotov k prodazhe: '' @ gift_title u"
    by (simp add: sell_suggestion_def)
  have "collect cat qs ts now m (pre @ u # post) =
         regular_loop cat m (regulars (pre @ post)) [] @ unique_loop qs ts now (uniques pre) [] @
         (if can_transfer_now ts now u then [sell_suggestion qs u] else []) @
         unique_loop qs ts now (uniques post) []"
    using collect_unique_item [OF cls, of cat qs ts now m pre post] step by simp
  with can step ttl show ?thesis by blast
qed

theorem ready_to_sell_rule_witness:
  "gift_class sample_locked = ''unique'' \<and> sample_iso_timestamp [] = None
   \<and> \<not> can_transfer_now sample_iso_timestamp 1700000000 sample_locked
   \<and> can_transfer_now sample_iso_timestamp 1900000000 sample_locked
   \<and> analyze [] [] sample_iso_timestamp 1700000000 0 [sample_locked] = [placeholder]
   \<and> analyze [] [] sample_iso_timestamp 1900000000 0 [sample_locked] =
       [\<lparr>title = ''Unikalnyj gotov k prodazhe: Unique'', details = ''Mozhno perevodit sejchas.''\<rparr>]"
proof -
  have cls: "gift_class sample_locked = ''unique''"
    by (simp add: sample_locked_def sample_unique_def)
  have empty: "sample_iso_timestamp [] = None"
    by (simp add: sample_iso_timestamp_def)
  have d: "next_transfer_date sample_locked = Some ''2030-01-01T00:00:00+00:00''"
    by (simp add: sample_locked_def)
  have early: "\<not> can_transfer_now sample_iso_timestamp 1700000000 sample_locked"
    using ready_to_sell_rule [of sample_locked sample_iso_timestamp 1700000000 "[]" "[]" 0 "[]" "[]"] cls empty d
    by (simp add: sample_iso_timestamp_def)
  have late: "can_transfer_now sample_iso_timestamp 1900000000 sample_locked"
    using ready_to_sell_rule [of sample_locked sample_iso_timestamp 1900000000 "[]" "[]" 0 "[]" "[]"] cls empty d
    by (simp add: sample_iso_timestamp_def)
  have a: "collect [] [] sample_iso_timestamp 1700000000 0 [sample_locked] = []"
    using ready_to_sell_rule [of sample_locked sample_iso_timestamp 1700000000 "[]" "[]" 0 "[]" "[]"] cls empty early
    by (simp add: regulars_def uniques_def)
  have b: "collect [] [] sample_iso_timestamp 1900000000 0 [sample_locked] = [sell_suggestion [] sample_locked]"
    using ready_to_sell_rule [of sample_locked sample_iso_timestamp 1900000000 "[]" "[]" 0 "[]" "[]"] cls empty late
    by (simp add: regulars_def uniques_def)
  have c: "sell_suggestion [] sample_locked =
      \<lparr>title = ''Unikalnyj gotov k prodazhe: Unique'', details = ''Mozhno perevodit sejchas.''\<rparr>"
    by (simp add: sell_suggestion_def sell_details_def sample_locked_def sample_unique_def truthy_str_def)
  from cls empty early late a b c show ?thesis
    by (simp add: analyze_collect)
qed

text \<open>
  Claim C4. The returned list is never empty; when no rule fires for any item of the
  portfolio, and so for the empty portfolio, it is exactly the placeholder.
\<close>

theorem placeholder_rule:
  "analyze cat qs ts now m gifts \<noteq> []
   \<and> analyze cat qs ts now m [] = [placeholder]
   \<and> ((\<forall>g \<in> set gifts. (gift_class g = ''regular'' \<longrightarrow> regular_step cat m g [] = []) \<and>
                         (gift_class g = ''unique'' \<longrightarrow> unique_step qs ts now g [] = []))
        \<longrightarrow> analyze cat qs ts now m gifts = [placeholder])"
proof -
  have nonempty: "analyze cat qs ts now m gifts \<noteq> []"
    by (simp add: analyze_collect)
  have "collect cat qs ts now m [] = []"
    by (simp add: collect_def regulars_def uniques_def)
  then have none: "analyze cat qs ts now m [] = [placeholder]"
    by (simp add: analyze_collect)
  have quiet: "analyze cat qs ts now m gifts = [placeholder]"
    if "\<forall>g \<in> set gifts. (gift_class g = ''regular'' \<longrightarrow> regular_step cat m g [] = []) \<and>
                         (gift_class g = ''unique'' \<longrightarrow> unique_step qs ts now g [] = [])"
    using that collect_empty_iff [of cat qs ts now m gifts] by (simp add: analyze_collect)
  from nonempty none quiet show ?thesis by blast
qed

theorem placeholder_rule_witness:
  "analyze [] [] sample_iso_timestamp 1700000000 0 [sample_upgradable, sample_locked] =
     [\<lparr>title = ''Poka bez yavnyh dejstvij'', details = ''Zhdyom izmenenij v kataloge/portfele.''\<rparr>]"
proof -
  have r: "regular_step [] 0 sample_upgradable [] = []"
    by (simp add: regular_step_def sample_upgradable_def sample_regular_def truthy_bool_def catalog_get_def)
  have u: "unique_step [] sample_iso_timestamp 1700000000 sample_locked [] = []"
    by (simp add: unique_step_def can_transfer_now_def sample_locked_def truthy_str_def sample_iso_timestamp_def)
  have "\<forall>g \<in> set [sample_upgradable, sample_locked].
          (gift_class g = ''regular'' \<longrightarrow> regular_step [] 0 g [] = []) \<and>
          (gift_class g = ''unique'' \<longrightarrow> unique_step [] sample_iso_timestamp 1700000000 g [] = [])"
    using r u by (simp add: sample_upgradable_def sample_regular_def sample_locked_def sample_unique_def)
  with placeholder_rule [of "[]" "[]" sample_iso_timestamp 1700000000 0 "[sample_upgradable, sample_locked]"]
  show ?thesis by (simp add: placeholder_def)
qed





text \<open>
  Claim C7. \<^verbatim>\<open>watch_tick\<close> never ends with an exception: whatever the \<^verbatim>\<open>try\<close> block
  raises is printed and the tick returns normally; it fails to return only when the block
  does (a platform whose pages never end). In particular a failed catalog request and a
  failed page request end the tick normally with the error printed.
\<close>

theorem watch_tick_never_raises:
  "(\<forall>err w'. watch_tick e w j \<noteq> Some (Inl err, w'))
   \<and> (watch_tick e w j = None \<longleftrightarrow> watch_tick_try e w (job_user j) = None)
   \<and> (watch_tick_try e w (job_user j) = Some (Inl err, w1) \<longrightarrow>
        watch_tick e w j = Some (Inr (), w1\<lparr>printed := printed w1 @ [err]\<rparr>))
   \<and> (last_catalog (STATE w) = [] \<and> get_available_gifts e = Inl err \<longrightarrow>
        watch_tick e w j =
          Some (Inr (), w\<lparr>calls := calls w @ [GetAvailableGifts], printed := printed w @ [err]\<rparr>))
   \<and> (last_catalog (STATE w) \<noteq> [] \<and> map_of (last_portfolio (STATE w)) (str_int (job_user j)) = None \<and>
      map_of (connections (STATE w)) (str_int (job_user j)) = Some bc \<and> bc \<noteq> [] \<and>
      get_business_account_gifts e 0 bc None = Inl err \<longrightarrow>
        watch_tick e w j =
          Some (Inr (), w\<lparr>calls := calls w @ [GetBusinessAccountGifts bc None],
                           printed := printed w @ [err]\<rparr>))"
proof -
  have never: "\<forall>err w'. watch_tick e w j \<noteq> Some (Inl err, w')"
    by (auto simp add: watch_tick_def Let_def split: option.splits sum.splits prod.splits)
  have diverge: "watch_tick e w j = None \<longleftrightarrow> watch_tick_try e w (job_user j) = None"
    by (auto simp add: watch_tick_def Let_def split: option.splits sum.splits prod.splits)
  have caught: "watch_tick e w j = Some (Inr (), w1\<lparr>printed := printed w1 @ [err]\<rparr>)"
    if "watch_tick_try e w (job_user j) = Some (Inl err, w1)"
    using that by (simp add: watch_tick_def Let_def)
  have cat: "watch_tick e w j =
          Some (Inr (), w\<lparr>calls := calls w @ [GetAvailableGifts], printed := printed w @ [err]\<rparr>)"
    if "last_catalog (STATE w) = [] \<and> get_available_gifts e = Inl err"
    using that watch_tick_try_catalog_failure [of w e err "job_user j"]
    by (simp add: watch_tick_def Let_def)
  have pf: "watch_tick e w j =
          Some (Inr (), w\<lparr>calls := calls w @ [GetBusinessAccountGifts bc None],
                           printed := printed w @ [err]\<rparr>)"
    if "last_catalog (STATE w) \<noteq> [] \<and> map_of (last_portfolio (STATE w)) (str_int (job_user j)) = None \<and>
      map_of (connections (STATE w)) (str_int (job_user j)) = Some bc \<and> bc \<noteq> [] \<and>
      get_business_account_gifts e 0 bc None = Inl err"
    using that watch_tick_try_portfolio_failure [of w "job_user j" bc e err]
    by (simp add: watch_tick_def Let_def)
  from never diverge caught cat pf show ?thesis by blast
qed

theorem watch_tick_never_raises_witness:
  "watch_tick catalog_down_env sample_world sample_job =
     Some (Inr (), sample_world\<lparr>calls := [GetAvailableGifts], printed := [TelegramError]\<rparr>)
   \<and> watch_tick pages_down_env cached_catalog_world sample_job =
     Some (Inr (), cached_catalog_world\<lparr>calls := [GetBusinessAccountGifts ''bc7'' None],
                                        printed := [TelegramError]\<rparr>)
   \<and> watch_tick_try send_down_env sample_world 7 \<noteq> None
   \<and> fst (the (watch_tick_try send_down_env sample_world 7)) = Inl TelegramError
   \<and> watch_tick send_down_env sample_world sample_job =
       Some (Inr (), (snd (the (watch_tick_try send_down_env sample_world 7)))\<lparr>printed := [TelegramError]\<rparr>)"
proof -
  have j: "job_user sample_job = 7" by (simp add: sample_job_def)
  have c: "last_catalog (STATE sample_world) = [] \<and> get_available_gifts catalog_down_env = Inl TelegramError"
    by (simp add: sample_world_def sample_state_def catalog_down_env_def)
  have a: "watch_tick catalog_down_env sample_world sample_job =
     Some (Inr (), sample_world\<lparr>calls := [GetAvailableGifts], printed := [TelegramError]\<rparr>)"
    using watch_tick_never_raises [of catalog_down_env sample_world sample_job TelegramError] c
    by (simp add: sample_world_def)
  have p: "last_catalog (STATE cached_catalog_world) \<noteq> [] \<and>
      map_of (last_portfolio (STATE cached_catalog_world)) (str_int (job_user sample_job)) = None \<and>
      map_of (connections (STATE cached_catalog_world)) (str_int (job_user sample_job)) = Some ''bc7'' \<and>
      ''bc7'' \<noteq> [] \<and> get_business_account_gifts pages_down_env 0 ''bc7'' None = Inl TelegramError"
    by (simp add: j str_int_7 cached_catalog_world_def sample_world_def sample_state_def
        sample_catalog_def pages_down_env_def)
  have b: "watch_tick pages_down_env cached_catalog_world sample_job =
     Some (Inr (), cached_catalog_world\<lparr>calls := [GetBusinessAccountGifts ''bc7'' None],
                                        printed := [TelegramError]\<rparr>)"
    using watch_tick_never_raises [of pages_down_env cached_catalog_world sample_job TelegramError _ "''bc7''"] p
    by (simp add: cached_catalog_world_def sample_world_def)
  have s: "watch_tick_try send_down_env sample_world 7 \<noteq> None
           \<and> fst (the (watch_tick_try send_down_env sample_world 7)) = Inl TelegramError
           \<and> printed (snd (the (watch_tick_try send_down_env sample_world 7))) = []"
    by code_simp
  then have s': "watch_tick_try send_down_env sample_world (job_user sample_job) =
      Some (Inl TelegramError, snd (the (watch_tick_try send_down_env sample_world 7)))"
    by (cases "watch_tick_try send_down_env sample_world 7") (auto simp add: j)
  have d: "watch_tick send_down_env sample_world sample_job =
       Some (Inr (), (snd (the (watch_tick_try send_down_env sample_world 7)))\<lparr>printed := [TelegramError]\<rparr>)"
    using watch_tick_never_raises [of send_down_env sample_world sample_job TelegramError
        "snd (the (watch_tick_try send_down_env sample_world 7))"] s s'
    by simp
  from a b s d show ?thesis by simp
qed

text \<open>
  Claim C8. As stated the claim fails: \<^verbatim>\<open>analyze_portfolio\<close> reads the catalog and the
  portfolio through the cache and fetches what the cache does not hold. The amended claim,
  conjunct by conjunct:
  \<^item> when the cached catalog is not empty and a portfolio is cached for the user, the call
    sends no request and leaves the whole world (state, file, queue, request log) as it
    was, returning the suggestions of the cached data;
  \<^item> when the cached catalog is empty and the catalog request fails, the call raises with
    only the request added to the log;
  \<^item> in every run that returns or raises: the connections, the chat bindings, the
    settings, the job queue and the console are as before; a non-empty cached catalog is
    kept and only pages are requested; an empty cached catalog whose request succeeds
    becomes the fetched catalog, the state is saved, and the catalog request is the first
    new request; the cached portfolios are kept, and no page is requested, when the user
    has a cached portfolio or no connection; for a user with a connection and no cached
    portfolio the pages are requested, and the portfolio the call returns is stored under
    the user and saved; a call that raises leaves the cached portfolios as they were.
\<close>

theorem analyze_portfolio_cache:
  "(last_catalog (STATE w) \<noteq> [] \<and> map_of (last_portfolio (STATE w)) (str_int uid) = Some cached \<longrightarrow>
      analyze_portfolio e w uid =
        Some (Inr (analyze (last_catalog (STATE w))
                     (fetch_market_quotes_example (unique_ids (pf_gifts cached)))
                     (iso_timestamp e) (clock e)
                     (case map_of (settings (STATE w)) (str_int uid) of
                        Some s \<Rightarrow> min_profit_stars s | None \<Rightarrow> 0)
                     (pf_gifts cached),
                   cached, map snd (last_catalog (STATE w))),
              w))
   \<and> (last_catalog (STATE w) = [] \<and> get_available_gifts e = Inl err \<longrightarrow>
        analyze_portfolio e w uid = Some (Inl err, w\<lparr>calls := calls w @ [GetAvailableGifts]\<rparr>))
   \<and> (analyze_portfolio e w uid = Some (r, w') \<longrightarrow>
        untouched w w'
        \<and> (last_catalog (STATE w) \<noteq> [] \<longrightarrow>
             last_catalog (STATE w') = last_catalog (STATE w) \<and> list_all page_call (new_calls w w'))
        \<and> (\<forall>gs. last_catalog (STATE w) = [] \<and> get_available_gifts e = Inr gs \<longrightarrow>
             last_catalog (STATE w') = catalog_dict (map catalog_entry_of gs) \<and>
             state_file w' = Some (model_dump_json (STATE w')) \<and>
             (\<exists>ys. new_calls w w' = GetAvailableGifts # ys \<and> list_all page_call ys))
        \<and> (map_of (last_portfolio (STATE w)) (str_int uid) \<noteq> None \<or>
            \<not> truthy_str (map_of (connections (STATE w)) (str_int uid)) \<longrightarrow>
             last_portfolio (STATE w') = last_portfolio (STATE w) \<and>
             \<not> list_ex page_call (new_calls w w'))
        \<and> (\<forall>bc sugg pf cs. map_of (last_portfolio (STATE w)) (str_int uid) = None \<and>
             map_of (connections (STATE w)) (str_int uid) = Some bc \<and> bc \<noteq> [] \<and>
             r = Inr (sugg, pf, cs) \<longrightarrow>
             last_portfolio (STATE w') = AList.update (str_int uid) pf (last_portfolio (STATE w)) \<and>
             state_file w' = Some (model_dump_json (STATE w')) \<and>
             GetBusinessAccountGifts bc None \<in> set (new_calls w w'))
        \<and> (\<forall>err. r = Inl err \<longrightarrow> last_portfolio (STATE w') = last_portfolio (STATE w)))"
proof -
  have hit: "analyze_portfolio e w uid =
        Some (Inr (analyze (last_catalog (STATE w))
                     (fetch_market_quotes_example (unique_ids (pf_gifts cached)))
                     (iso_timestamp e) (clock e)
                     (case map_of (settings (STATE w)) (str_int uid) of
                        Some s \<Rightarrow> min_profit_stars s | None \<Rightarrow> 0)
                     (pf_gifts cached),
                   cached, map snd (last_catalog (STATE w))),
              w)"
    if "last_catalog (STATE w) \<noteq> [] \<and> map_of (last_portfolio (STATE w)) (str_int uid) = Some cached"
    using that by (simp add: analyze_portfolio_def catalog_cached portfolio_cached Let_def)
  have down: "analyze_portfolio e w uid = Some (Inl err, w\<lparr>calls := calls w @ [GetAvailableGifts]\<rparr>)"
    if "last_catalog (STATE w) = [] \<and> get_available_gifts e = Inl err"
    using that by (simp add: analyze_portfolio_def catalog_request_fails)
  have frame: "untouched w w'" if "analyze_portfolio e w uid = Some (r, w')"
    using that by (rule analyze_portfolio_untouched)
  note effects = analyze_portfolio_effects [of e w uid r w']
  from hit down frame effects show ?thesis by blast
qed



theorem analyze_portfolio_cache_witness:
  "analyze_portfolio catalog_down_env cached_world 7 =
       Some (Inr ([\<lparr>title = ''Konvertirovat v Stars: Gift'',
                    details = ''Mozhno poluchit 150 * za obychnyj podarok.''\<rparr>],
                  sample_portfolio, map snd sample_catalog), cached_world)
   \<and> analyze_portfolio catalog_down_env sample_world 7 =
       Some (Inl TelegramError, sample_world\<lparr>calls := [GetAvailableGifts]\<rparr>)
   \<and> analyze_portfolio sample_env sample_world 7 \<noteq> None
   \<and> untouched sample_world (snd (the (analyze_portfolio sample_env sample_world 7)))
   \<and> last_catalog (STATE (snd (the (analyze_portfolio sample_env sample_world 7)))) =
       catalog_dict [catalog_entry_of sample_api_gift]
   \<and> map (fst) (last_portfolio (STATE (snd (the (analyze_portfolio sample_env sample_world 7))))) = [''7'']
   \<and> state_file (snd (the (analyze_portfolio sample_env sample_world 7))) =
       Some (model_dump_json (STATE (snd (the (analyze_portfolio sample_env sample_world 7)))))
   \<and> new_calls sample_world (snd (the (analyze_portfolio sample_env sample_world 7))) =
       [GetAvailableGifts, GetBusinessAccountGifts ''bc7'' None]
   \<and> analyze_portfolio sample_env cached_catalog_world 8 \<noteq> None
   \<and> calls (snd (the (analyze_portfolio sample_env cached_catalog_world 8))) = []
   \<and> last_portfolio (STATE (snd (the (analyze_portfolio sample_env cached_catalog_world 8)))) = []"
proof -
  have cat: "last_catalog (STATE cached_world) \<noteq> []"
    by (simp add: cached_world_def sample_catalog_def)
  have pf: "map_of (last_portfolio (STATE cached_world)) (str_int 7) = Some sample_portfolio"
    by (simp add: cached_world_def str_int_7)
  have sugg: "analyze (last_catalog (STATE cached_world))
                (fetch_market_quotes_example (unique_ids (pf_gifts sample_portfolio)))
                (iso_timestamp catalog_down_env) (clock catalog_down_env)
                (case map_of (settings (STATE cached_world)) (str_int 7) of
                   Some s \<Rightarrow> min_profit_stars s | None \<Rightarrow> 0)
                (pf_gifts sample_portfolio) =
              [\<lparr>title = ''Konvertirovat v Stars: Gift'',
                details = ''Mozhno poluchit 150 * za obychnyj podarok.''\<rparr>]"
    by code_simp
  have cat2: "map snd (last_catalog (STATE cached_world)) = map snd sample_catalog"
    by (simp add: cached_world_def)
  from analyze_portfolio_cache [of cached_world 7 sample_portfolio catalog_down_env] cat pf
  have "analyze_portfolio catalog_down_env cached_world 7 =
        Some (Inr (analyze (last_catalog (STATE cached_world))
                     (fetch_market_quotes_example (unique_ids (pf_gifts sample_portfolio)))
                     (iso_timestamp catalog_down_env) (clock catalog_down_env)
                     (case map_of (settings (STATE cached_world)) (str_int 7) of
                        Some s \<Rightarrow> min_profit_stars s | None \<Rightarrow> 0)
                     (pf_gifts sample_portfolio),
                   sample_portfolio, map snd (last_catalog (STATE cached_world))),
              cached_world)"
    by blast
  then have hit: "analyze_portfolio catalog_down_env cached_world 7 =
       Some (Inr ([\<lparr>title = ''Konvertirovat v Stars: Gift'',
                    details = ''Mozhno poluchit 150 * za obychnyj podarok.''\<rparr>],
                  sample_portfolio, map snd sample_catalog), cached_world)"
    by (simp only: sugg cat2)
  have pre_down: "last_catalog (STATE sample_world) = [] \<and>
      get_available_gifts catalog_down_env = Inl TelegramError"
    by (simp add: sample_world_def sample_state_def catalog_down_env_def)
  have no_calls: "calls sample_world = []"
    by (simp add: sample_world_def)
  from analyze_portfolio_cache [of sample_world 7 sample_portfolio catalog_down_env TelegramError] pre_down
  have "analyze_portfolio catalog_down_env sample_world 7 =
       Some (Inl TelegramError, sample_world\<lparr>calls := calls sample_world @ [GetAvailableGifts]\<rparr>)"
    by blast
  then have down: "analyze_portfolio catalog_down_env sample_world 7 =
       Some (Inl TelegramError, sample_world\<lparr>calls := [GetAvailableGifts]\<rparr>)"
    by (simp add: no_calls)
  have run: "analyze_portfolio sample_env sample_world 7 \<noteq> None"
    by code_simp
  then obtain r w' where rw: "analyze_portfolio sample_env sample_world 7 = Some (r, w')"
    by (cases "analyze_portfolio sample_env sample_world 7") auto
  have pre: "last_catalog (STATE sample_world) = []"
    "get_available_gifts sample_env = Inr [sample_api_gift]"
    by (simp_all add: sample_world_def sample_state_def sample_env_def)
  from analyze_portfolio_cache [of sample_world 7 sample_portfolio sample_env TelegramError r w'] rw pre
  have "untouched sample_world w' \<and>
    last_catalog (STATE w') = catalog_dict (map catalog_entry_of [sample_api_gift]) \<and>
    state_file w' = Some (model_dump_json (STATE w'))"
    by blast
  then have miss: "untouched sample_world w'"
    "last_catalog (STATE w') = catalog_dict [catalog_entry_of sample_api_gift]"
    "state_file w' = Some (model_dump_json (STATE w'))"
    by simp_all
  have log: "new_calls sample_world (snd (the (analyze_portfolio sample_env sample_world 7))) =
       [GetAvailableGifts, GetBusinessAccountGifts ''bc7'' None]
     \<and> map (fst) (last_portfolio (STATE (snd (the (analyze_portfolio sample_env sample_world 7))))) = [''7'']"
    by code_simp
  have other: "analyze_portfolio sample_env cached_catalog_world 8 \<noteq> None
     \<and> calls (snd (the (analyze_portfolio sample_env cached_catalog_world 8))) = []
     \<and> last_portfolio (STATE (snd (the (analyze_portfolio sample_env cached_catalog_world 8)))) = []"
    by code_simp
  from rw miss have miss': "untouched sample_world (snd (the (analyze_portfolio sample_env sample_world 7)))"
    "last_catalog (STATE (snd (the (analyze_portfolio sample_env sample_world 7)))) =
       catalog_dict [catalog_entry_of sample_api_gift]"
    "state_file (snd (the (analyze_portfolio sample_env sample_world 7))) =
       Some (model_dump_json (STATE (snd (the (analyze_portfolio sample_env sample_world 7)))))"
    by simp_all
  from hit down run miss' log other show ?thesis by blast
qed

text \<open>The claim as first stated (no fetch, state unchanged) fails for a user with a connection
  and empty caches: both requests are sent, the catalog cache is filled and the file rewritten.\<close>

theorem analyze_portfolio_fetches_counterexample:
  "last_catalog (STATE sample_world) = []
   \<and> analyze_portfolio sample_env sample_world 7 \<noteq> None
   \<and> last_catalog (STATE (snd (the (analyze_portfolio sample_env sample_world 7)))) \<noteq> []
   \<and> state_file (snd (the (analyze_portfolio sample_env sample_world 7))) \<noteq> state_file sample_world
   \<and> calls (snd (the (analyze_portfolio sample_env sample_world 7))) =
       [GetAvailableGifts, GetBusinessAccountGifts ''bc7'' None]"
  by code_simp




text \<open>
  Claim C10. For a \<^verbatim>\<open>/watch\<close> of a user whose second word \<^verbatim>\<open>float\<close> rejects, the handler
  ends with \<^verbatim>\<open>ValueError\<close> and the world (settings, state file, job queue, request log) is
  the one before the command; the same holds when \<^verbatim>\<open>int\<close> rejects a first word that
  passed \<^verbatim>\<open>isdigit\<close>. When the first word is missing or does not pass \<^verbatim>\<open>isdigit\<close> and
  the second word is missing or accepted, no error comes from the first word: the settings
  stored and saved for the user have \<^verbatim>\<open>min_profit_stars = 0\<close>, and the handler's outcome
  is that of sending the reply (or the \<^verbatim>\<open>AttributeError\<close> of an application without a job
  queue).
\<close>

theorem watch_bad_float_atomic:
  "effective_user upd = Some uid \<Longrightarrow>
     (2 \<le> length (args upd) \<and> parse_float e (args upd ! 1) = None \<longrightarrow>
        watch_cmd e w upd = (Inl ValueError, w))
     \<and> (\<not> int_arg_ok e upd \<longrightarrow> watch_cmd e w upd = (Inl ValueError, w))
     \<and> ((args upd = [] \<or> \<not> str_isdigit e (args upd ! 0)) \<and> float_arg_ok e upd \<longrightarrow>
          map_of (settings (STATE (snd (watch_cmd e w upd)))) (str_int uid) =
            Some \<lparr>min_profit_stars = 0,
                  min_profit_pct = Some (if 2 \<le> length (args upd) then the (parse_float e (args upd ! 1))
                                         else Float 0)\<rparr>
          \<and> state_file (snd (watch_cmd e w upd)) =
              Some (model_dump_json (STATE (snd (watch_cmd e w upd))))
          \<and> fst (watch_cmd e w upd) =
              (if has_job_queue e
               then (case send_message e (effective_chat upd)
                       (watch_reply e 0 (if 2 \<le> length (args upd) then the (parse_float e (args upd ! 1))
                                         else Float 0)) of
                       Some err \<Rightarrow> Inl err
                     | None \<Rightarrow> Inr ())
               else Inl AttributeError))"
proof -
  assume user: "effective_user upd = Some uid"
  have bad_float: "watch_cmd e w upd = (Inl ValueError, w)"
    if "2 \<le> length (args upd) \<and> parse_float e (args upd ! 1) = None"
    using user that by (simp add: watch_cmd_def Let_def min_pct_arg_def split: option.splits)
  have bad_int: "watch_cmd e w upd = (Inl ValueError, w)" if "\<not> int_arg_ok e upd"
    using user that by (simp add: watch_cmd_def Let_def int_arg_ok_def)
  have dflt: "map_of (settings (STATE (snd (watch_cmd e w upd)))) (str_int uid) =
            Some \<lparr>min_profit_stars = 0,
                  min_profit_pct = Some (if 2 \<le> length (args upd) then the (parse_float e (args upd ! 1))
                                         else Float 0)\<rparr>
          \<and> state_file (snd (watch_cmd e w upd)) =
              Some (model_dump_json (STATE (snd (watch_cmd e w upd))))
          \<and> fst (watch_cmd e w upd) =
              (if has_job_queue e
               then (case send_message e (effective_chat upd)
                       (watch_reply e 0 (if 2 \<le> length (args upd) then the (parse_float e (args upd ! 1))
                                         else Float 0)) of
                       Some err \<Rightarrow> Inl err
                     | None \<Rightarrow> Inr ())
               else Inl AttributeError)"
    if h: "(args upd = [] \<or> \<not> str_isdigit e (args upd ! 0)) \<and> float_arg_ok e upd"
  proof -
    from h have stars: "min_stars_arg e (args upd) = Some 0"
      by (auto simp add: min_stars_arg_def)
    show ?thesis
    proof (cases "2 \<le> length (args upd)")
      case True
      with h obtain pct where pct: "parse_float e (args upd ! 1) = Some pct"
        by (auto simp add: float_arg_ok_def min_pct_arg_def)
      with True have pct': "min_pct_arg e (args upd) = Some pct"
        by (simp add: min_pct_arg_def)
      show ?thesis
        using user True pct
        by (simp add: watch_cmd_def Let_def stars pct' save_def update_conv' split: option.splits)
    next
      case False
      then have pct': "min_pct_arg e (args upd) = Some (Float 0)"
        by (simp add: min_pct_arg_def)
      show ?thesis
        using user False
        by (simp add: watch_cmd_def Let_def stars pct' save_def update_conv' split: option.splits)
    qed
  qed
  from bad_float bad_int dflt show ?thesis by blast
qed

theorem watch_bad_float_atomic_witness:
  "watch_cmd sample_env sample_world watch_100_abc = (Inl ValueError, sample_world)
   \<and> watch_cmd sample_env sample_world watch_sup2 = (Inl ValueError, sample_world)
   \<and> map_of (settings (STATE (snd (watch_cmd sample_env sample_world watch_abc)))) ''7'' =
       Some \<lparr>min_profit_stars = 0, min_profit_pct = Some (Float 0)\<rparr>
   \<and> fst (watch_cmd sample_env sample_world watch_abc) = Inr ()
   \<and> fst (watch_cmd no_queue_env sample_world watch_abc) = Inl AttributeError"
proof -
  have u1: "effective_user watch_100_abc = Some 7" by (simp add: watch_100_abc_def)
  have u2: "effective_user watch_abc = Some 7" by (simp add: watch_abc_def)
  have u3: "effective_user watch_sup2 = Some 7" by (simp add: watch_sup2_def)
  have bad: "2 \<le> length (args watch_100_abc) \<and> parse_float sample_env (args watch_100_abc ! 1) = None"
    by code_simp
  have sup: "\<not> int_arg_ok sample_env watch_sup2"
    by code_simp
  have nd: "(args watch_abc = [] \<or> \<not> str_isdigit sample_env (args watch_abc ! 0)) \<and>
            float_arg_ok sample_env watch_abc"
    by code_simp
  have nd': "(args watch_abc = [] \<or> \<not> str_isdigit no_queue_env (args watch_abc ! 0)) \<and>
            float_arg_ok no_queue_env watch_abc"
    by code_simp
  have len: "\<not> 2 \<le> length (args watch_abc)" by (simp add: watch_abc_def)
  have send: "send_message sample_env c t = None" for c t by (simp add: sample_env_def)
  have q: "has_job_queue sample_env" "\<not> has_job_queue no_queue_env"
    by (simp_all add: sample_env_def no_queue_env_def)
  from watch_bad_float_atomic [OF u1, of sample_env sample_world] bad
  have a: "watch_cmd sample_env sample_world watch_100_abc = (Inl ValueError, sample_world)"
    by simp
  from watch_bad_float_atomic [OF u3, of sample_env sample_world] sup
  have b: "watch_cmd sample_env sample_world watch_sup2 = (Inl ValueError, sample_world)"
    by simp
  from watch_bad_float_atomic [OF u2, of sample_env sample_world] nd len q
  have c: "map_of (settings (STATE (snd (watch_cmd sample_env sample_world watch_abc)))) ''7'' =
       Some \<lparr>min_profit_stars = 0, min_profit_pct = Some (Float 0)\<rparr>
     \<and> fst (watch_cmd sample_env sample_world watch_abc) = Inr ()"
    by (simp add: str_int_7 send)
  from watch_bad_float_atomic [OF u2, of no_queue_env sample_world] nd' len q
  have d: "fst (watch_cmd no_queue_env sample_world watch_abc) = Inl AttributeError"
    by simp
  from a b c d show ?thesis by simp
qed

end
